theory Spec2Isabelle
  imports Main
begin

section \<open>Go values used by the predicates\<close>

text \<open>
  The predicates of \<^verbatim>\<open>controllers/clusterhealthcheck_predicates.go\<close> have no error
  result, but they can panic: a field read through a nil pointer, a method call on a nil
  interface, and a type assertion \<^verbatim>\<open>x.(*T)\<close> on an interface value whose dynamic type is
  not \<^verbatim>\<open>*T\<close>. Each predicate therefore returns \<open>error + bool\<close>.

  A Go pointer \<^verbatim>\<open>*T\<close> is a \<open>T option\<close> (\<open>None\<close> is the nil pointer), a Go
  \<^verbatim>\<open>map[string]string\<close> is a \<open>(string \<rightharpoonup> string) option\<close> (\<open>None\<close> is the nil map,
  \<open>Some Map.empty\<close> the empty map that is not nil), and a slice is a \<open>list option\<close> in the
  same way.
\<close>

datatype error = NilPointerDereference | InterfaceConversion

text \<open>
  \<^verbatim>\<open>reflect.DeepEqual\<close> (Go standard library). On the values modelled here (strings,
  booleans, structs, pointers compared through their pointees, maps and slices with nil
  kept apart from empty) two values are deeply equal exactly when their models are equal.
\<close>

definition DeepEqual :: "'a \<Rightarrow> 'a \<Rightarrow> bool" where
  "DeepEqual x y \<longleftrightarrow> x = y"

subsection \<open>Object metadata and the watched kinds\<close>

text \<open>
  The entity schemas are declared in the dependencies (cluster-api, libsveltos,
  addon-controller). Each kind embeds \<^verbatim>\<open>metav1.ObjectMeta\<close>, which a record extension
  models: \<open>Namespace c\<close>, \<open>Name c\<close> and \<open>Labels c\<close> are the promoted fields. Of the other
  fields only those the predicates read, and a few of their neighbours, are kept. The
  payload types that the predicates only compare (the report's and the definition's
  \<^verbatim>\<open>Spec\<close>, the elements of \<^verbatim>\<open>Status.FeatureSummaries\<close>) are type parameters.
\<close>

record ObjectMeta =
  Name :: string
  Namespace :: string
  Labels :: "(string \<rightharpoonup> string) option"
  Annotations :: "(string \<rightharpoonup> string) option"

record ClusterSpec =
  Paused :: bool

record ClusterStatus =
  Phase :: string
  InfrastructureReady :: bool
  ControlPlaneReady :: bool

record Cluster = ObjectMeta +
  Spec :: ClusterSpec
  Status :: ClusterStatus

record MachineSpec =
  ClusterName :: string

record MachineStatus =
  Phase :: string
  BootstrapReady :: bool
  InfrastructureReady :: bool

record Machine = ObjectMeta +
  Spec :: MachineSpec
  Status :: MachineStatus

record SveltosClusterSpec =
  Paused :: bool
  KubeconfigName :: string

record SveltosClusterStatus =
  Ready :: bool
  Version :: string

record SveltosCluster = ObjectMeta +
  Spec :: SveltosClusterSpec
  Status :: SveltosClusterStatus

record 'fs ClusterSummaryStatus =
  FeatureSummaries :: "'fs list option"
  Dependencies :: "string option"

record 'fs ClusterSummary = ObjectMeta +
  Status :: "'fs ClusterSummaryStatus"

record HealthCheckReportStatus =
  Phase :: "string option"

record 'rs HealthCheckReport = ObjectMeta +
  Spec :: 'rs
  Status :: HealthCheckReportStatus

record 'hs HealthCheck = ObjectMeta +
  Spec :: 'hs

text \<open>
  The interface \<^verbatim>\<open>client.Object\<close>: the nil interface, or a pointer (possibly nil) of
  one of the watched kinds.
\<close>

datatype ('fs, 'rs, 'hs) Object =
    NilObject
  | ClusterPtr "Cluster option"
  | MachinePtr "Machine option"
  | SveltosClusterPtr "SveltosCluster option"
  | ClusterSummaryPtr "'fs ClusterSummary option"
  | HealthCheckReportPtr "'rs HealthCheckReport option"
  | HealthCheckPtr "'hs HealthCheck option"

text \<open>
  \<^verbatim>\<open>GetNamespace\<close> and \<^verbatim>\<open>GetName\<close> are methods of the embedded \<^verbatim>\<open>*ObjectMeta\<close>; through
  a nil pointer, or on the nil interface, the call panics.
\<close>

definition GetNamespace :: "'z ObjectMeta_scheme option \<Rightarrow> error + string" where
  "GetNamespace p = (case p of None \<Rightarrow> Inl NilPointerDereference | Some m \<Rightarrow> Inr (Namespace m))"

definition GetName :: "'z ObjectMeta_scheme option \<Rightarrow> error + string" where
  "GetName p = (case p of None \<Rightarrow> Inl NilPointerDereference | Some m \<Rightarrow> Inr (Name m))"

fun Object_GetNamespace :: "('fs, 'rs, 'hs) Object \<Rightarrow> error + string" where
  "Object_GetNamespace NilObject = Inl NilPointerDereference"
| "Object_GetNamespace (ClusterPtr p) = GetNamespace p"
| "Object_GetNamespace (MachinePtr p) = GetNamespace p"
| "Object_GetNamespace (SveltosClusterPtr p) = GetNamespace p"
| "Object_GetNamespace (ClusterSummaryPtr p) = GetNamespace p"
| "Object_GetNamespace (HealthCheckReportPtr p) = GetNamespace p"
| "Object_GetNamespace (HealthCheckPtr p) = GetNamespace p"

fun Object_GetName :: "('fs, 'rs, 'hs) Object \<Rightarrow> error + string" where
  "Object_GetName NilObject = Inl NilPointerDereference"
| "Object_GetName (ClusterPtr p) = GetName p"
| "Object_GetName (MachinePtr p) = GetName p"
| "Object_GetName (SveltosClusterPtr p) = GetName p"
| "Object_GetName (ClusterSummaryPtr p) = GetName p"
| "Object_GetName (HealthCheckReportPtr p) = GetName p"
| "Object_GetName (HealthCheckPtr p) = GetName p"

text \<open>The type assertions \<^verbatim>\<open>e.Object.(*T)\<close>: a panic unless the dynamic type is \<^verbatim>\<open>*T\<close>.\<close>

fun assertSveltosCluster :: "('fs, 'rs, 'hs) Object \<Rightarrow> error + SveltosCluster option" where
  "assertSveltosCluster (SveltosClusterPtr p) = Inr p"
| "assertSveltosCluster _ = Inl InterfaceConversion"

fun assertClusterSummary :: "('fs, 'rs, 'hs) Object \<Rightarrow> error + 'fs ClusterSummary option" where
  "assertClusterSummary (ClusterSummaryPtr p) = Inr p"
| "assertClusterSummary _ = Inl InterfaceConversion"

fun assertHealthCheckReport :: "('fs, 'rs, 'hs) Object \<Rightarrow> error + 'rs HealthCheckReport option" where
  "assertHealthCheckReport (HealthCheckReportPtr p) = Inr p"
| "assertHealthCheckReport _ = Inl InterfaceConversion"

fun assertHealthCheck :: "('fs, 'rs, 'hs) Object \<Rightarrow> error + 'hs HealthCheck option" where
  "assertHealthCheck (HealthCheckPtr p) = Inr p"
| "assertHealthCheck _ = Inl InterfaceConversion"

subsection \<open>Machine phases\<close>

text \<open>
  Modelled from the spec: the machine schema's phase enum (section 6 names the
  phase enum among the fields this code depends on; section 4.1 singles out the
  running phase). The type \<^verbatim>\<open>MachinePhase\<close>, its constants and the method
  \<^verbatim>\<open>MachineStatus.GetTypedPhase\<close> belong to the cluster-api dependency and are not in this
  repository: the phase is stored as a string, and \<^verbatim>\<open>GetTypedPhase\<close> returns it when it
  is one of the known phases and \<^verbatim>\<open>MachinePhaseUnknown\<close> otherwise.
\<close>

type_synonym MachinePhase = string

definition MachinePhasePending :: MachinePhase where "MachinePhasePending = ''Pending''"
definition MachinePhaseProvisioning :: MachinePhase where "MachinePhaseProvisioning = ''Provisioning''"
definition MachinePhaseProvisioned :: MachinePhase where "MachinePhaseProvisioned = ''Provisioned''"
definition MachinePhaseRunning :: MachinePhase where "MachinePhaseRunning = ''Running''"
definition MachinePhaseDeleting :: MachinePhase where "MachinePhaseDeleting = ''Deleting''"
definition MachinePhaseDeleted :: MachinePhase where "MachinePhaseDeleted = ''Deleted''"
definition MachinePhaseFailed :: MachinePhase where "MachinePhaseFailed = ''Failed''"
definition MachinePhaseUnknown :: MachinePhase where "MachinePhaseUnknown = ''Unknown''"

text \<open>
  Modelled from the spec: \<^verbatim>\<open>GetTypedPhase\<close>, the cluster-api method that reads the phase
  enum out of the stored string; the spec names the enum and its running value only.
\<close>

definition GetTypedPhase :: "MachineStatus \<Rightarrow> MachinePhase" where
  "GetTypedPhase m =
     (let phase = MachineStatus.Phase m in
      if phase \<in> set [MachinePhasePending, MachinePhaseProvisioning, MachinePhaseProvisioned,
                       MachinePhaseRunning, MachinePhaseDeleting, MachinePhaseDeleted,
                       MachinePhaseFailed]
      then phase else MachinePhaseUnknown)"

subsection \<open>Events\<close>

text \<open>
  The events of controller-runtime, generic in the object type: a pointer to the kind for
  the typed predicates, the interface \<^verbatim>\<open>client.Object\<close> for \<^verbatim>\<open>predicate.Funcs\<close>.
\<close>

record 'o TypedCreateEvent =
  Object :: 'o

record 'o TypedUpdateEvent =
  ObjectOld :: 'o
  ObjectNew :: 'o

record 'o TypedDeleteEvent =
  Object :: 'o
  DeleteStateUnknown :: bool

record 'o TypedGenericEvent =
  Object :: 'o

text \<open>
  \<^verbatim>\<open>predicate.Funcs\<close>: the four callbacks, in the order the source fills them in.
\<close>

record 'o Funcs =
  UpdateFunc :: "'o TypedUpdateEvent \<Rightarrow> error + bool"
  CreateFunc :: "'o TypedCreateEvent \<Rightarrow> error + bool"
  DeleteFunc :: "'o TypedDeleteEvent \<Rightarrow> error + bool"
  GenericFunc :: "'o TypedGenericEvent \<Rightarrow> error + bool"

section \<open>The predicates\<close>

text \<open>
  Every predicate first derives a logger with the object's namespace and name
  (\<^verbatim>\<open>Logger.WithValues\<close>), which is where a nil object panics, and writes one verbose line
  before it returns. The lines written are not part of the verdict and are not modelled;
  the logger is kept as an argument of type \<open>'l\<close>.
\<close>

record 'l ClusterPredicate =
  Logger :: 'l

record 'l MachinePredicate =
  Logger :: 'l

subsection \<open>ClusterPredicate\<close>

definition ClusterPredicate_Create ::
  "'l ClusterPredicate \<Rightarrow> Cluster option TypedCreateEvent \<Rightarrow> error + bool" where
  "ClusterPredicate_Create p obj =
     (case TypedCreateEvent.Object obj of
        None \<Rightarrow> Inl NilPointerDereference
      | Some cluster \<Rightarrow>
          if \<not> ClusterSpec.Paused (Cluster.Spec cluster) then Inr True
          else Inr False)"

definition ClusterPredicate_Update ::
  "'l ClusterPredicate \<Rightarrow> Cluster option TypedUpdateEvent \<Rightarrow> error + bool" where
  "ClusterPredicate_Update p obj =
     (case ObjectNew obj of
        None \<Rightarrow> Inl NilPointerDereference
      | Some newCluster \<Rightarrow>
          (case ObjectOld obj of
             None \<Rightarrow> Inr True
           | Some oldCluster \<Rightarrow>
               if ClusterSpec.Paused (Cluster.Spec oldCluster)
                  \<and> \<not> ClusterSpec.Paused (Cluster.Spec newCluster) then Inr True
               else if \<not> DeepEqual (Labels oldCluster) (Labels newCluster) then Inr True
               else Inr False))"

definition ClusterPredicate_Delete ::
  "'l ClusterPredicate \<Rightarrow> Cluster option TypedDeleteEvent \<Rightarrow> error + bool" where
  "ClusterPredicate_Delete p obj =
     (case GetNamespace (TypedDeleteEvent.Object obj) of
        Inl e \<Rightarrow> Inl e
      | Inr ns \<Rightarrow>
          (case GetName (TypedDeleteEvent.Object obj) of
             Inl e \<Rightarrow> Inl e
           | Inr n \<Rightarrow> Inr True))"

definition ClusterPredicate_Generic ::
  "'l ClusterPredicate \<Rightarrow> Cluster option TypedGenericEvent \<Rightarrow> error + bool" where
  "ClusterPredicate_Generic p obj =
     (case GetNamespace (TypedGenericEvent.Object obj) of
        Inl e \<Rightarrow> Inl e
      | Inr ns \<Rightarrow>
          (case GetName (TypedGenericEvent.Object obj) of
             Inl e \<Rightarrow> Inl e
           | Inr n \<Rightarrow> Inr False))"

subsection \<open>MachinePredicate\<close>

definition MachinePredicate_Create ::
  "'l MachinePredicate \<Rightarrow> Machine option TypedCreateEvent \<Rightarrow> error + bool" where
  "MachinePredicate_Create p obj =
     (case TypedCreateEvent.Object obj of
        None \<Rightarrow> Inl NilPointerDereference
      | Some machine \<Rightarrow>
          if GetTypedPhase (Machine.Status machine) = MachinePhaseRunning then Inr True
          else Inr False)"

definition MachinePredicate_Update ::
  "'l MachinePredicate \<Rightarrow> Machine option TypedUpdateEvent \<Rightarrow> error + bool" where
  "MachinePredicate_Update p obj =
     (case ObjectNew obj of
        None \<Rightarrow> Inl NilPointerDereference
      | Some newMachine \<Rightarrow>
          if GetTypedPhase (Machine.Status newMachine) \<noteq> MachinePhaseRunning then Inr False
          else
            (case ObjectOld obj of
               None \<Rightarrow> Inr True
             | Some oldMachine \<Rightarrow>
                 if GetTypedPhase (Machine.Status oldMachine)
                    \<noteq> GetTypedPhase (Machine.Status newMachine) then Inr True
                 else Inr False))"

definition MachinePredicate_Delete ::
  "'l MachinePredicate \<Rightarrow> Machine option TypedDeleteEvent \<Rightarrow> error + bool" where
  "MachinePredicate_Delete p obj =
     (case GetNamespace (TypedDeleteEvent.Object obj) of
        Inl e \<Rightarrow> Inl e
      | Inr ns \<Rightarrow>
          (case GetName (TypedDeleteEvent.Object obj) of
             Inl e \<Rightarrow> Inl e
           | Inr n \<Rightarrow> Inr False))"

definition MachinePredicate_Generic ::
  "'l MachinePredicate \<Rightarrow> Machine option TypedGenericEvent \<Rightarrow> error + bool" where
  "MachinePredicate_Generic p obj =
     (case GetNamespace (TypedGenericEvent.Object obj) of
        Inl e \<Rightarrow> Inl e
      | Inr ns \<Rightarrow>
          (case GetName (TypedGenericEvent.Object obj) of
             Inl e \<Rightarrow> Inl e
           | Inr n \<Rightarrow> Inr False))"

subsection \<open>SveltosClusterPredicates\<close>

definition SveltosClusterPredicates :: "'l \<Rightarrow> ('fs, 'rs, 'hs) Object Funcs" where
  "SveltosClusterPredicates logger =
     \<lparr> UpdateFunc = (\<lambda>e.
         case assertSveltosCluster (ObjectNew e) of
           Inl err \<Rightarrow> Inl err
         | Inr newPtr \<Rightarrow>
             (case assertSveltosCluster (ObjectOld e) of
                Inl err \<Rightarrow> Inl err
              | Inr oldPtr \<Rightarrow>
                  (case newPtr of
                     None \<Rightarrow> Inl NilPointerDereference
                   | Some newCluster \<Rightarrow>
                       (case oldPtr of
                          None \<Rightarrow> Inr True
                        | Some oldCluster \<Rightarrow>
                            if SveltosClusterSpec.Paused (SveltosCluster.Spec oldCluster)
                               \<and> \<not> SveltosClusterSpec.Paused (SveltosCluster.Spec newCluster)
                            then Inr True
                            else if \<not> Ready (SveltosCluster.Status oldCluster)
                                    \<and> Ready (SveltosCluster.Status newCluster)
                            then Inr True
                            else if \<not> DeepEqual (Labels oldCluster) (Labels newCluster)
                            then Inr True
                            else Inr False)))),
       CreateFunc = (\<lambda>e.
         case assertSveltosCluster (TypedCreateEvent.Object e) of
           Inl err \<Rightarrow> Inl err
         | Inr None \<Rightarrow> Inl NilPointerDereference
         | Inr (Some cluster) \<Rightarrow>
             if \<not> SveltosClusterSpec.Paused (SveltosCluster.Spec cluster) then Inr True
             else Inr False),
       DeleteFunc = (\<lambda>e.
         case Object_GetNamespace (TypedDeleteEvent.Object e) of
           Inl err \<Rightarrow> Inl err
         | Inr ns \<Rightarrow>
             (case Object_GetName (TypedDeleteEvent.Object e) of
                Inl err \<Rightarrow> Inl err
              | Inr n \<Rightarrow> Inr True)),
       GenericFunc = (\<lambda>e.
         case Object_GetNamespace (TypedGenericEvent.Object e) of
           Inl err \<Rightarrow> Inl err
         | Inr ns \<Rightarrow>
             (case Object_GetName (TypedGenericEvent.Object e) of
                Inl err \<Rightarrow> Inl err
              | Inr n \<Rightarrow> Inr False)) \<rparr>"

subsection \<open>ClusterSummaryPredicates\<close>

definition ClusterSummaryPredicates :: "'l \<Rightarrow> ('fs, 'rs, 'hs) Object Funcs" where
  "ClusterSummaryPredicates logger =
     \<lparr> UpdateFunc = (\<lambda>e.
         case assertClusterSummary (ObjectNew e) of
           Inl err \<Rightarrow> Inl err
         | Inr newPtr \<Rightarrow>
             (case assertClusterSummary (ObjectOld e) of
                Inl err \<Rightarrow> Inl err
              | Inr oldPtr \<Rightarrow>
                  (case newPtr of
                     None \<Rightarrow> Inl NilPointerDereference
                   | Some newClusterSummary \<Rightarrow>
                       (case oldPtr of
                          None \<Rightarrow> Inr True
                        | Some oldClusterSummary \<Rightarrow>
                            if \<not> DeepEqual
                                  (FeatureSummaries (ClusterSummary.Status oldClusterSummary))
                                  (FeatureSummaries (ClusterSummary.Status newClusterSummary))
                            then Inr True
                            else Inr False)))),
       CreateFunc = (\<lambda>e.
         case Object_GetNamespace (TypedCreateEvent.Object e) of
           Inl err \<Rightarrow> Inl err
         | Inr ns \<Rightarrow>
             (case Object_GetName (TypedCreateEvent.Object e) of
                Inl err \<Rightarrow> Inl err
              | Inr n \<Rightarrow> Inr False)),
       DeleteFunc = (\<lambda>e.
         case Object_GetNamespace (TypedDeleteEvent.Object e) of
           Inl err \<Rightarrow> Inl err
         | Inr ns \<Rightarrow>
             (case Object_GetName (TypedDeleteEvent.Object e) of
                Inl err \<Rightarrow> Inl err
              | Inr n \<Rightarrow> Inr True)),
       GenericFunc = (\<lambda>e.
         case Object_GetNamespace (TypedGenericEvent.Object e) of
           Inl err \<Rightarrow> Inl err
         | Inr ns \<Rightarrow>
             (case Object_GetName (TypedGenericEvent.Object e) of
                Inl err \<Rightarrow> Inl err
              | Inr n \<Rightarrow> Inr False)) \<rparr>"

subsection \<open>HealthCheckReportPredicates\<close>

definition HealthCheckReportPredicates :: "'l \<Rightarrow> ('fs, 'rs, 'hs) Object Funcs" where
  "HealthCheckReportPredicates logger =
     \<lparr> UpdateFunc = (\<lambda>e.
         case assertHealthCheckReport (ObjectNew e) of
           Inl err \<Rightarrow> Inl err
         | Inr newPtr \<Rightarrow>
             (case assertHealthCheckReport (ObjectOld e) of
                Inl err \<Rightarrow> Inl err
              | Inr oldPtr \<Rightarrow>
                  (case newPtr of
                     None \<Rightarrow> Inl NilPointerDereference
                   | Some newHCR \<Rightarrow>
                       (case oldPtr of
                          None \<Rightarrow> Inr True
                        | Some oldHCR \<Rightarrow>
                            if \<not> DeepEqual (HealthCheckReport.Spec oldHCR)
                                             (HealthCheckReport.Spec newHCR)
                            then Inr True
                            else Inr False)))),
       CreateFunc = (\<lambda>e.
         case Object_GetNamespace (TypedCreateEvent.Object e) of
           Inl err \<Rightarrow> Inl err
         | Inr ns \<Rightarrow>
             (case Object_GetName (TypedCreateEvent.Object e) of
                Inl err \<Rightarrow> Inl err
              | Inr n \<Rightarrow> Inr True)),
       DeleteFunc = (\<lambda>e.
         case Object_GetNamespace (TypedDeleteEvent.Object e) of
           Inl err \<Rightarrow> Inl err
         | Inr ns \<Rightarrow>
             (case Object_GetName (TypedDeleteEvent.Object e) of
                Inl err \<Rightarrow> Inl err
              | Inr n \<Rightarrow> Inr True)),
       GenericFunc = (\<lambda>e.
         case Object_GetNamespace (TypedGenericEvent.Object e) of
           Inl err \<Rightarrow> Inl err
         | Inr ns \<Rightarrow>
             (case Object_GetName (TypedGenericEvent.Object e) of
                Inl err \<Rightarrow> Inl err
              | Inr n \<Rightarrow> Inr False)) \<rparr>"

subsection \<open>HealthCheckPredicates\<close>

text \<open>The health-check definition is cluster-scoped: only its name is logged.\<close>

definition HealthCheckPredicates :: "'l \<Rightarrow> ('fs, 'rs, 'hs) Object Funcs" where
  "HealthCheckPredicates logger =
     \<lparr> UpdateFunc = (\<lambda>e.
         case assertHealthCheck (ObjectNew e) of
           Inl err \<Rightarrow> Inl err
         | Inr newPtr \<Rightarrow>
             (case assertHealthCheck (ObjectOld e) of
                Inl err \<Rightarrow> Inl err
              | Inr oldPtr \<Rightarrow>
                  (case newPtr of
                     None \<Rightarrow> Inl NilPointerDereference
                   | Some newHC \<Rightarrow>
                       (case oldPtr of
                          None \<Rightarrow> Inr True
                        | Some oldHC \<Rightarrow>
                            if \<not> DeepEqual (HealthCheck.Spec oldHC) (HealthCheck.Spec newHC)
                            then Inr True
                            else Inr False)))),
       CreateFunc = (\<lambda>e.
         case Object_GetName (TypedCreateEvent.Object e) of
           Inl err \<Rightarrow> Inl err
         | Inr n \<Rightarrow> Inr True),
       DeleteFunc = (\<lambda>e.
         case Object_GetName (TypedDeleteEvent.Object e) of
           Inl err \<Rightarrow> Inl err
         | Inr n \<Rightarrow> Inr True),
       GenericFunc = (\<lambda>e.
         case Object_GetName (TypedGenericEvent.Object e) of
           Inl err \<Rightarrow> Inl err
         | Inr n \<Rightarrow> Inr False) \<rparr>"

text \<open>An object is present when it is neither the nil interface nor a nil pointer.\<close>

fun present :: "('fs, 'rs, 'hs) Object \<Rightarrow> bool" where
  "present NilObject = False"
| "present (ClusterPtr p) = (p \<noteq> None)"
| "present (MachinePtr p) = (p \<noteq> None)"
| "present (SveltosClusterPtr p) = (p \<noteq> None)"
| "present (ClusterSummaryPtr p) = (p \<noteq> None)"
| "present (HealthCheckReportPtr p) = (p \<noteq> None)"
| "present (HealthCheckPtr p) = (p \<noteq> None)"

text \<open>
  The label set of an object, in the spec's words the exact key/value set of its labels:
  the pairs of the label map. A nil label map and an empty one have the same, empty,
  label set.
\<close>

definition labelSet :: "(string \<rightharpoonup> string) option \<Rightarrow> (string \<times> string) set" where
  "labelSet labels = (case labels of None \<Rightarrow> {} | Some m \<Rightarrow> {(k, v). m k = Some v})"

section \<open>Properties\<close>

subsection \<open>Auxiliary facts\<close>

lemma GetNamespace_Some: "GetNamespace (Some m) = Inr (Namespace m)"
  by (simp add: GetNamespace_def)

lemma GetName_Some: "GetName (Some m) = Inr (Name m)"
  by (simp add: GetName_def)

lemma Object_GetNamespace_present:
  "present ob \<Longrightarrow> \<exists>ns. Object_GetNamespace ob = Inr ns"
  by (cases ob) (auto simp: GetNamespace_def)

lemma Object_GetName_present:
  "present ob \<Longrightarrow> \<exists>n. Object_GetName ob = Inr n"
  by (cases ob) (auto simp: GetName_def)

text \<open>
  The typed phase is the running one exactly when the stored phase string is
  \<open>''Running''\<close>.
\<close>

lemma GetTypedPhase_Running_iff:
  "GetTypedPhase s = MachinePhaseRunning \<longleftrightarrow> MachineStatus.Phase s = ''Running''"
  by (auto simp: GetTypedPhase_def Let_def MachinePhaseRunning_def MachinePhaseUnknown_def
      MachinePhasePending_def MachinePhaseProvisioning_def MachinePhaseProvisioned_def
      MachinePhaseDeleting_def MachinePhaseDeleted_def MachinePhaseFailed_def)

text \<open>
  Deep equality of two label maps, spelled out as the Go documentation has it for maps:
  both nil or both not nil, the same keys, and equal values under each key.
\<close>

lemma DeepEqual_Labels:
  fixes a b :: "(string \<rightharpoonup> string) option"
  shows "DeepEqual a b \<longleftrightarrow>
    (case (a, b) of
       (None, None) \<Rightarrow> True
     | (Some m, Some n) \<Rightarrow> dom m = dom n \<and> (\<forall>k \<in> dom m. m k = n k)
     | _ \<Rightarrow> False)"
proof (cases a; cases b)
  fix m n
  assume ab: "a = Some m" "b = Some n"
  have "m = n \<longleftrightarrow> dom m = dom n \<and> (\<forall>k \<in> dom m. m k = n k)"
  proof
    assume "dom m = dom n \<and> (\<forall>k \<in> dom m. m k = n k)"
    then show "m = n"
      by (intro map_le_antisym) (auto simp: map_le_def)
  qed auto
  with ab show ?thesis by (simp add: DeepEqual_def)
qed (simp_all add: DeepEqual_def)

text \<open>
  A present object has a namespace and a name, so deriving the logger does not panic.
\<close>

lemma present_names:
  assumes "present ob"
  obtains ns n where "Object_GetNamespace ob = Inr ns" and "Object_GetName ob = Inr n"
  using assms Object_GetNamespace_present Object_GetName_present by blast

text \<open>The update callbacks on two present snapshots, as one boolean expression each.\<close>

lemma ClusterPredicate_Update_present:
  "ClusterPredicate_Update p \<lparr>ObjectOld = Some oldC, ObjectNew = Some newC\<rparr> =
     Inr (ClusterSpec.Paused (Cluster.Spec oldC) \<and> \<not> ClusterSpec.Paused (Cluster.Spec newC)
          \<or> \<not> DeepEqual (Labels oldC) (Labels newC))"
  by (simp add: ClusterPredicate_Update_def)

lemma SveltosCluster_UpdateFunc_present:
  "UpdateFunc (SveltosClusterPredicates l)
     \<lparr>ObjectOld = SveltosClusterPtr (Some oldS), ObjectNew = SveltosClusterPtr (Some newS)\<rparr> =
     Inr (SveltosClusterSpec.Paused (SveltosCluster.Spec oldS)
            \<and> \<not> SveltosClusterSpec.Paused (SveltosCluster.Spec newS)
          \<or> \<not> Ready (SveltosCluster.Status oldS) \<and> Ready (SveltosCluster.Status newS)
          \<or> \<not> DeepEqual (Labels oldS) (Labels newS))"
  by (simp add: SveltosClusterPredicates_def)

lemma MachinePredicate_Update_present:
  "MachinePredicate_Update p \<lparr>ObjectOld = Some oldM, ObjectNew = Some newM\<rparr> =
     Inr (GetTypedPhase (Machine.Status newM) = MachinePhaseRunning
          \<and> GetTypedPhase (Machine.Status oldM) \<noteq> MachinePhaseRunning)"
  by (auto simp: MachinePredicate_Update_def)

lemma ClusterSummary_UpdateFunc_present:
  "UpdateFunc (ClusterSummaryPredicates l)
     \<lparr>ObjectOld = ClusterSummaryPtr (Some oldCS), ObjectNew = ClusterSummaryPtr (Some newCS)\<rparr> =
     Inr (\<not> DeepEqual (FeatureSummaries (ClusterSummary.Status oldCS))
                       (FeatureSummaries (ClusterSummary.Status newCS)))"
  by (simp add: ClusterSummaryPredicates_def)

lemma HealthCheckReport_UpdateFunc_present:
  "UpdateFunc (HealthCheckReportPredicates l)
     \<lparr>ObjectOld = HealthCheckReportPtr (Some oldHCR),
      ObjectNew = HealthCheckReportPtr (Some newHCR)\<rparr> =
     Inr (\<not> DeepEqual (HealthCheckReport.Spec oldHCR) (HealthCheckReport.Spec newHCR))"
  by (simp add: HealthCheckReportPredicates_def)

lemma HealthCheck_UpdateFunc_present:
  "UpdateFunc (HealthCheckPredicates l)
     \<lparr>ObjectOld = HealthCheckPtr (Some oldHC), ObjectNew = HealthCheckPtr (Some newHC)\<rparr> =
     Inr (\<not> DeepEqual (HealthCheck.Spec oldHC) (HealthCheck.Spec newHC))"
  by (simp add: HealthCheckPredicates_def)

text \<open>
  The update callbacks of \<^verbatim>\<open>predicate.Funcs\<close> assert the type of both objects before the
  nil test: when the old object is the nil interface rather than a nil pointer, the
  assertion panics.
\<close>

lemma SveltosCluster_UpdateFunc_nil_interface:
  "UpdateFunc (SveltosClusterPredicates l)
     \<lparr>ObjectOld = NilObject, ObjectNew = SveltosClusterPtr (Some newS)\<rparr> =
     Inl InterfaceConversion"
  by (simp add: SveltosClusterPredicates_def)

text \<open>
  \<^verbatim>\<open>reflect.DeepEqual\<close> keeps a nil map apart from an empty map that is not nil, so an
  Update whose label map goes from nil to empty counts as a change of labels.
\<close>

lemma DeepEqual_nil_empty_labels:
  "\<not> DeepEqual (None :: (string \<rightharpoonup> string) option) (Some Map.empty)"
  by (simp add: DeepEqual_def)

lemma ClusterPredicate_Update_nil_to_empty_labels:
  assumes "Labels oldC = None" and "Labels newC = Some Map.empty"
  shows "ClusterPredicate_Update p \<lparr>ObjectOld = Some oldC, ObjectNew = Some newC\<rparr> = Inr True"
  using assms by (simp add: ClusterPredicate_Update_present DeepEqual_def)

text \<open>
  Label sets against label maps: two maps that are not nil have the same label set exactly
  when they are the same map, so two label maps differ exactly when their label sets
  differ or one of them is nil and the other is not.
\<close>

lemma labelSet_nil: "labelSet None = {}"
  by (simp add: labelSet_def)

lemma labelSet_empty: "labelSet (Some Map.empty) = {}"
  by (simp add: labelSet_def)

lemma labelSet_Some_eq_iff: "labelSet (Some m) = labelSet (Some n) \<longleftrightarrow> m = n"
proof
  assume eq: "labelSet (Some m) = labelSet (Some n)"
  show "m = n"
  proof (rule ext)
    fix k
    show "m k = n k"
    proof (cases "m k")
      case None
      show ?thesis
      proof (cases "n k")
        case None
        with \<open>m k = None\<close> show ?thesis by simp
      next
        case (Some v)
        then have "(k, v) \<in> labelSet (Some n)" by (simp add: labelSet_def)
        with eq have "(k, v) \<in> labelSet (Some m)" by simp
        with None show ?thesis by (simp add: labelSet_def)
      qed
    next
      case (Some v)
      then have "(k, v) \<in> labelSet (Some m)" by (simp add: labelSet_def)
      with eq have "(k, v) \<in> labelSet (Some n)" by simp
      with Some show ?thesis by (simp add: labelSet_def)
    qed
  qed
next
  assume "m = n"
  then show "labelSet (Some m) = labelSet (Some n)" by simp
qed

lemma Labels_differ_iff:
  "a \<noteq> b \<longleftrightarrow> labelSet a \<noteq> labelSet b \<or> (a = None) \<noteq> (b = None)"
proof (cases a; cases b)
  fix m n
  assume "a = Some m" "b = Some n"
  then show ?thesis by (simp add: labelSet_Some_eq_iff)
qed auto

lemma not_DeepEqual_Labels_iff:
  "\<not> DeepEqual a b \<longleftrightarrow> labelSet a \<noteq> labelSet b \<or> (a = None) \<noteq> (b = None)"
  unfolding DeepEqual_def by (rule Labels_differ_iff)

subsection \<open>Cluster kinds\<close>

text \<open>
  C8. For both cluster kinds (the cluster-api \<^verbatim>\<open>Cluster\<close> and the \<^verbatim>\<open>SveltosCluster\<close>), a
  Create notification is relevant exactly when the cluster's \<^verbatim>\<open>Spec.Paused\<close> is false, and
  a Delete notification is always relevant. The Delete callback of
  \<^verbatim>\<open>SveltosClusterPredicates\<close> does not look at the kind of the object: it returns true for
  every present object.
\<close>

theorem cluster_create_delete:
  "ClusterPredicate_Create p \<lparr>TypedCreateEvent.Object = Some c\<rparr>
     = Inr (\<not> ClusterSpec.Paused (Cluster.Spec c))
   \<and> CreateFunc (SveltosClusterPredicates l :: ('fs, 'rs, 'hs) Object Funcs)
        \<lparr>TypedCreateEvent.Object = SveltosClusterPtr (Some sc)\<rparr>
     = Inr (\<not> SveltosClusterSpec.Paused (SveltosCluster.Spec sc))
   \<and> ClusterPredicate_Delete p \<lparr>TypedDeleteEvent.Object = Some c, DeleteStateUnknown = u\<rparr>
     = Inr True
   \<and> (present ob \<longrightarrow>
        DeleteFunc (SveltosClusterPredicates l :: ('fs, 'rs, 'hs) Object Funcs)
          \<lparr>TypedDeleteEvent.Object = ob, DeleteStateUnknown = u\<rparr> = Inr True)"
proof (intro conjI impI)
  show "ClusterPredicate_Create p \<lparr>TypedCreateEvent.Object = Some c\<rparr>
     = Inr (\<not> ClusterSpec.Paused (Cluster.Spec c))"
    by (simp add: ClusterPredicate_Create_def)
  show "CreateFunc (SveltosClusterPredicates l :: ('fs, 'rs, 'hs) Object Funcs)
        \<lparr>TypedCreateEvent.Object = SveltosClusterPtr (Some sc)\<rparr>
     = Inr (\<not> SveltosClusterSpec.Paused (SveltosCluster.Spec sc))"
    by (simp add: SveltosClusterPredicates_def)
  show "ClusterPredicate_Delete p \<lparr>TypedDeleteEvent.Object = Some c, DeleteStateUnknown = u\<rparr>
     = Inr True"
    by (simp add: ClusterPredicate_Delete_def GetNamespace_Some GetName_Some)
next
  assume "present ob"
  then obtain ns n where "Object_GetNamespace ob = Inr ns" and "Object_GetName ob = Inr n"
    by (rule present_names)
  then show "DeleteFunc (SveltosClusterPredicates l :: ('fs, 'rs, 'hs) Object Funcs)
          \<lparr>TypedDeleteEvent.Object = ob, DeleteStateUnknown = u\<rparr> = Inr True"
    by (simp add: SveltosClusterPredicates_def)
qed

theorem cluster_create_delete_witness:
  "ClusterPredicate_Create \<lparr>ClusterPredicate.Logger = ()\<rparr>
     \<lparr>TypedCreateEvent.Object = Some
       \<lparr>Name = ''c1'', Namespace = ''ns'', Labels = None, Annotations = None,
        Cluster.Spec = \<lparr>ClusterSpec.Paused = True\<rparr>,
        Cluster.Status = \<lparr>ClusterStatus.Phase = ''Provisioned'',
          ClusterStatus.InfrastructureReady = True, ControlPlaneReady = True\<rparr>\<rparr>\<rparr> = Inr False
   \<and> CreateFunc (SveltosClusterPredicates () :: (nat, string, string) Object Funcs)
     \<lparr>TypedCreateEvent.Object = SveltosClusterPtr (Some
       \<lparr>Name = ''s1'', Namespace = ''ns'', Labels = None, Annotations = None,
        SveltosCluster.Spec = \<lparr>SveltosClusterSpec.Paused = False,
          KubeconfigName = ''kubeconfig''\<rparr>,
        SveltosCluster.Status = \<lparr>Ready = False, Version = ''v1.30''\<rparr>\<rparr>)\<rparr> = Inr True
   \<and> ClusterPredicate_Delete \<lparr>ClusterPredicate.Logger = ()\<rparr>
     \<lparr>TypedDeleteEvent.Object = Some
       \<lparr>Name = ''c1'', Namespace = ''ns'', Labels = None, Annotations = None,
        Cluster.Spec = \<lparr>ClusterSpec.Paused = True\<rparr>,
        Cluster.Status = \<lparr>ClusterStatus.Phase = ''Provisioned'',
          ClusterStatus.InfrastructureReady = True, ControlPlaneReady = True\<rparr>\<rparr>,
      DeleteStateUnknown = False\<rparr> = Inr True
   \<and> DeleteFunc (SveltosClusterPredicates () :: (nat, string, string) Object Funcs)
     \<lparr>TypedDeleteEvent.Object = MachinePtr (Some
       \<lparr>Name = ''m1'', Namespace = ''ns'', Labels = None, Annotations = None,
        Machine.Spec = \<lparr>ClusterName = ''c1''\<rparr>,
        Machine.Status = \<lparr>MachineStatus.Phase = ''Running'', BootstrapReady = True,
          MachineStatus.InfrastructureReady = True\<rparr>\<rparr>),
      DeleteStateUnknown = False\<rparr> = Inr True"
  using cluster_create_delete [where p = "\<lparr>ClusterPredicate.Logger = ()\<rparr>" and l = "()"
      and u = False
      and c = "\<lparr>Name = ''c1'', Namespace = ''ns'', Labels = None, Annotations = None,
        Cluster.Spec = \<lparr>ClusterSpec.Paused = True\<rparr>,
        Cluster.Status = \<lparr>ClusterStatus.Phase = ''Provisioned'',
          ClusterStatus.InfrastructureReady = True, ControlPlaneReady = True\<rparr>\<rparr>"
      and sc = "\<lparr>Name = ''s1'', Namespace = ''ns'', Labels = None, Annotations = None,
        SveltosCluster.Spec = \<lparr>SveltosClusterSpec.Paused = False,
          KubeconfigName = ''kubeconfig''\<rparr>,
        SveltosCluster.Status = \<lparr>Ready = False, Version = ''v1.30''\<rparr>\<rparr>"
      and ob = "MachinePtr (Some
       \<lparr>Name = ''m1'', Namespace = ''ns'', Labels = None, Annotations = None,
        Machine.Spec = \<lparr>ClusterName = ''c1''\<rparr>,
        Machine.Status = \<lparr>MachineStatus.Phase = ''Running'', BootstrapReady = True,
          MachineStatus.InfrastructureReady = True\<rparr>\<rparr>) :: (nat, string, string) Object"]
  by simp

text \<open>
  C2, as stated, says that an Update notification of a cluster kind with both snapshots
  present is relevant if and only if the cluster was unpaused, or became ready, or its
  label set changed. The predicates compare the label maps with \<^verbatim>\<open>reflect.DeepEqual\<close>,
  which tells a nil map from an empty map that is not nil: when the labels go from nil to
  empty, and the cluster is not paused before or after, the label set is the same and
  nothing else the claim names has happened, yet the verdict is true.
\<close>

theorem cluster_update_same_label_set_counterexample:
  "ClusterPredicate_Update \<lparr>ClusterPredicate.Logger = ()\<rparr>
     \<lparr>ObjectOld = Some
       \<lparr>Name = ''c1'', Namespace = ''ns'', Labels = None, Annotations = None,
        Cluster.Spec = \<lparr>ClusterSpec.Paused = False\<rparr>,
        Cluster.Status = \<lparr>ClusterStatus.Phase = ''Provisioned'',
          ClusterStatus.InfrastructureReady = True, ControlPlaneReady = True\<rparr>\<rparr>,
      ObjectNew = Some
       \<lparr>Name = ''c1'', Namespace = ''ns'', Labels = Some Map.empty, Annotations = None,
        Cluster.Spec = \<lparr>ClusterSpec.Paused = False\<rparr>,
        Cluster.Status = \<lparr>ClusterStatus.Phase = ''Provisioned'',
          ClusterStatus.InfrastructureReady = True, ControlPlaneReady = True\<rparr>\<rparr>\<rparr> = Inr True
   \<and> \<not> (ClusterSpec.Paused (Cluster.Spec
       \<lparr>Name = ''c1'', Namespace = ''ns'', Labels = None, Annotations = None,
        Cluster.Spec = \<lparr>ClusterSpec.Paused = False\<rparr>,
        Cluster.Status = \<lparr>ClusterStatus.Phase = ''Provisioned'',
          ClusterStatus.InfrastructureReady = True, ControlPlaneReady = True\<rparr>\<rparr>)
      \<and> \<not> ClusterSpec.Paused (Cluster.Spec
       \<lparr>Name = ''c1'', Namespace = ''ns'', Labels = Some Map.empty, Annotations = None,
        Cluster.Spec = \<lparr>ClusterSpec.Paused = False\<rparr>,
        Cluster.Status = \<lparr>ClusterStatus.Phase = ''Provisioned'',
          ClusterStatus.InfrastructureReady = True, ControlPlaneReady = True\<rparr>\<rparr>))
   \<and> labelSet (Labels
       \<lparr>Name = ''c1'', Namespace = ''ns'', Labels = None, Annotations = None,
        Cluster.Spec = \<lparr>ClusterSpec.Paused = False\<rparr>,
        Cluster.Status = \<lparr>ClusterStatus.Phase = ''Provisioned'',
          ClusterStatus.InfrastructureReady = True, ControlPlaneReady = True\<rparr>\<rparr>)
     = labelSet (Labels
       \<lparr>Name = ''c1'', Namespace = ''ns'', Labels = Some Map.empty, Annotations = None,
        Cluster.Spec = \<lparr>ClusterSpec.Paused = False\<rparr>,
        Cluster.Status = \<lparr>ClusterStatus.Phase = ''Provisioned'',
          ClusterStatus.InfrastructureReady = True, ControlPlaneReady = True\<rparr>\<rparr>)"
  by (simp add: ClusterPredicate_Update_def DeepEqual_def labelSet_def)

text \<open>
  C2, amended. An Update notification of a cluster kind with both snapshots present is
  relevant if and only if the cluster was unpaused (\<^verbatim>\<open>Spec.Paused\<close> went from true to
  false), or, for the \<^verbatim>\<open>SveltosCluster\<close>, which has the readiness flag \<^verbatim>\<open>Status.Ready\<close>, the
  cluster became ready (false to true), or the label set changed, or the label map went
  from nil to not nil or from not nil to nil; in every other case, a cluster becoming
  paused with the same labels among them, it is not relevant. This holds for
  \<^verbatim>\<open>ClusterPredicate.Update\<close> and for the \<^verbatim>\<open>UpdateFunc\<close> of \<^verbatim>\<open>SveltosClusterPredicates\<close>.
\<close>

theorem cluster_update_verdict:
  "ClusterPredicate_Update p \<lparr>ObjectOld = Some oldC, ObjectNew = Some newC\<rparr> =
     Inr (ClusterSpec.Paused (Cluster.Spec oldC) \<and> \<not> ClusterSpec.Paused (Cluster.Spec newC)
          \<or> labelSet (Labels oldC) \<noteq> labelSet (Labels newC)
          \<or> (Labels oldC = None) \<noteq> (Labels newC = None))
   \<and> UpdateFunc (SveltosClusterPredicates l :: ('fs, 'rs, 'hs) Object Funcs)
     \<lparr>ObjectOld = SveltosClusterPtr (Some oldS), ObjectNew = SveltosClusterPtr (Some newS)\<rparr> =
     Inr (SveltosClusterSpec.Paused (SveltosCluster.Spec oldS)
            \<and> \<not> SveltosClusterSpec.Paused (SveltosCluster.Spec newS)
          \<or> \<not> Ready (SveltosCluster.Status oldS) \<and> Ready (SveltosCluster.Status newS)
          \<or> labelSet (Labels oldS) \<noteq> labelSet (Labels newS)
          \<or> (Labels oldS = None) \<noteq> (Labels newS = None))"
proof
  have "\<not> DeepEqual (Labels oldC) (Labels newC) \<longleftrightarrow>
      labelSet (Labels oldC) \<noteq> labelSet (Labels newC)
      \<or> (Labels oldC = None) \<noteq> (Labels newC = None)"
    by (rule not_DeepEqual_Labels_iff)
  then show "ClusterPredicate_Update p \<lparr>ObjectOld = Some oldC, ObjectNew = Some newC\<rparr> =
     Inr (ClusterSpec.Paused (Cluster.Spec oldC) \<and> \<not> ClusterSpec.Paused (Cluster.Spec newC)
          \<or> labelSet (Labels oldC) \<noteq> labelSet (Labels newC)
          \<or> (Labels oldC = None) \<noteq> (Labels newC = None))"
    by (simp only: ClusterPredicate_Update_present)
next
  have "\<not> DeepEqual (Labels oldS) (Labels newS) \<longleftrightarrow>
      labelSet (Labels oldS) \<noteq> labelSet (Labels newS)
      \<or> (Labels oldS = None) \<noteq> (Labels newS = None)"
    by (rule not_DeepEqual_Labels_iff)
  then show "UpdateFunc (SveltosClusterPredicates l :: ('fs, 'rs, 'hs) Object Funcs)
     \<lparr>ObjectOld = SveltosClusterPtr (Some oldS), ObjectNew = SveltosClusterPtr (Some newS)\<rparr> =
     Inr (SveltosClusterSpec.Paused (SveltosCluster.Spec oldS)
            \<and> \<not> SveltosClusterSpec.Paused (SveltosCluster.Spec newS)
          \<or> \<not> Ready (SveltosCluster.Status oldS) \<and> Ready (SveltosCluster.Status newS)
          \<or> labelSet (Labels oldS) \<noteq> labelSet (Labels newS)
          \<or> (Labels oldS = None) \<noteq> (Labels newS = None))"
    by (simp only: SveltosCluster_UpdateFunc_present)
qed

text \<open>
  The verdicts at six updates: a cluster that becomes paused with the same labels (false),
  one whose label \<open>env\<close> goes from \<open>prod\<close> to \<open>dev\<close> (true), one that is unpaused (true); a
  \<^verbatim>\<open>SveltosCluster\<close> that becomes ready (true), one whose labels go from nil to empty (true),
  and one of which only the version changes (false).
\<close>

theorem cluster_update_verdict_witness:
  "ClusterPredicate_Update \<lparr>ClusterPredicate.Logger = ()\<rparr>
     \<lparr>ObjectOld = Some
       \<lparr>Name = ''c1'', Namespace = ''ns'', Labels = Some [''env'' \<mapsto> ''prod''], Annotations = None,
        Cluster.Spec = \<lparr>ClusterSpec.Paused = False\<rparr>,
        Cluster.Status = \<lparr>ClusterStatus.Phase = ''Provisioned'',
          ClusterStatus.InfrastructureReady = True, ControlPlaneReady = False\<rparr>\<rparr>,
      ObjectNew = Some
       \<lparr>Name = ''c1'', Namespace = ''ns'', Labels = Some [''env'' \<mapsto> ''prod''], Annotations = None,
        Cluster.Spec = \<lparr>ClusterSpec.Paused = True\<rparr>,
        Cluster.Status = \<lparr>ClusterStatus.Phase = ''Provisioned'',
          ClusterStatus.InfrastructureReady = True, ControlPlaneReady = True\<rparr>\<rparr>\<rparr> = Inr False
   \<and> ClusterPredicate_Update \<lparr>ClusterPredicate.Logger = ()\<rparr>
     \<lparr>ObjectOld = Some
       \<lparr>Name = ''c1'', Namespace = ''ns'', Labels = Some [''env'' \<mapsto> ''prod''], Annotations = None,
        Cluster.Spec = \<lparr>ClusterSpec.Paused = False\<rparr>,
        Cluster.Status = \<lparr>ClusterStatus.Phase = ''Provisioned'',
          ClusterStatus.InfrastructureReady = True, ControlPlaneReady = True\<rparr>\<rparr>,
      ObjectNew = Some
       \<lparr>Name = ''c1'', Namespace = ''ns'', Labels = Some [''env'' \<mapsto> ''dev''], Annotations = None,
        Cluster.Spec = \<lparr>ClusterSpec.Paused = False\<rparr>,
        Cluster.Status = \<lparr>ClusterStatus.Phase = ''Provisioned'',
          ClusterStatus.InfrastructureReady = True, ControlPlaneReady = True\<rparr>\<rparr>\<rparr> = Inr True
   \<and> ClusterPredicate_Update \<lparr>ClusterPredicate.Logger = ()\<rparr>
     \<lparr>ObjectOld = Some
       \<lparr>Name = ''c1'', Namespace = ''ns'', Labels = Some [''env'' \<mapsto> ''prod''], Annotations = None,
        Cluster.Spec = \<lparr>ClusterSpec.Paused = True\<rparr>,
        Cluster.Status = \<lparr>ClusterStatus.Phase = ''Provisioned'',
          ClusterStatus.InfrastructureReady = True, ControlPlaneReady = True\<rparr>\<rparr>,
      ObjectNew = Some
       \<lparr>Name = ''c1'', Namespace = ''ns'', Labels = Some [''env'' \<mapsto> ''prod''], Annotations = None,
        Cluster.Spec = \<lparr>ClusterSpec.Paused = False\<rparr>,
        Cluster.Status = \<lparr>ClusterStatus.Phase = ''Provisioned'',
          ClusterStatus.InfrastructureReady = True, ControlPlaneReady = True\<rparr>\<rparr>\<rparr> = Inr True
   \<and> UpdateFunc (SveltosClusterPredicates () :: (nat, string, string) Object Funcs)
     \<lparr>ObjectOld = SveltosClusterPtr (Some
       \<lparr>Name = ''s1'', Namespace = ''ns'', Labels = Some [''env'' \<mapsto> ''prod''], Annotations = None,
        SveltosCluster.Spec = \<lparr>SveltosClusterSpec.Paused = False,
          KubeconfigName = ''kubeconfig''\<rparr>,
        SveltosCluster.Status = \<lparr>Ready = False, Version = ''v1.30''\<rparr>\<rparr>),
      ObjectNew = SveltosClusterPtr (Some
       \<lparr>Name = ''s1'', Namespace = ''ns'', Labels = Some [''env'' \<mapsto> ''prod''], Annotations = None,
        SveltosCluster.Spec = \<lparr>SveltosClusterSpec.Paused = True,
          KubeconfigName = ''kubeconfig''\<rparr>,
        SveltosCluster.Status = \<lparr>Ready = True, Version = ''v1.30''\<rparr>\<rparr>)\<rparr> = Inr True
   \<and> UpdateFunc (SveltosClusterPredicates () :: (nat, string, string) Object Funcs)
     \<lparr>ObjectOld = SveltosClusterPtr (Some
       \<lparr>Name = ''s1'', Namespace = ''ns'', Labels = None, Annotations = None,
        SveltosCluster.Spec = \<lparr>SveltosClusterSpec.Paused = False,
          KubeconfigName = ''kubeconfig''\<rparr>,
        SveltosCluster.Status = \<lparr>Ready = True, Version = ''v1.30''\<rparr>\<rparr>),
      ObjectNew = SveltosClusterPtr (Some
       \<lparr>Name = ''s1'', Namespace = ''ns'', Labels = Some Map.empty, Annotations = None,
        SveltosCluster.Spec = \<lparr>SveltosClusterSpec.Paused = False,
          KubeconfigName = ''kubeconfig''\<rparr>,
        SveltosCluster.Status = \<lparr>Ready = True, Version = ''v1.30''\<rparr>\<rparr>)\<rparr> = Inr True
   \<and> UpdateFunc (SveltosClusterPredicates () :: (nat, string, string) Object Funcs)
     \<lparr>ObjectOld = SveltosClusterPtr (Some
       \<lparr>Name = ''s1'', Namespace = ''ns'', Labels = Some [''env'' \<mapsto> ''prod''], Annotations = None,
        SveltosCluster.Spec = \<lparr>SveltosClusterSpec.Paused = False,
          KubeconfigName = ''kubeconfig''\<rparr>,
        SveltosCluster.Status = \<lparr>Ready = True, Version = ''v1.30''\<rparr>\<rparr>),
      ObjectNew = SveltosClusterPtr (Some
       \<lparr>Name = ''s1'', Namespace = ''ns'', Labels = Some [''env'' \<mapsto> ''prod''], Annotations = None,
        SveltosCluster.Spec = \<lparr>SveltosClusterSpec.Paused = False,
          KubeconfigName = ''kubeconfig''\<rparr>,
        SveltosCluster.Status = \<lparr>Ready = True, Version = ''v1.31''\<rparr>\<rparr>)\<rparr> = Inr False"
  using cluster_update_verdict [where p = "\<lparr>ClusterPredicate.Logger = ()\<rparr>" and l = "()"
      and oldC = "\<lparr>Name = ''c1'', Namespace = ''ns'', Labels = Some [''env'' \<mapsto> ''prod''], Annotations = None,
        Cluster.Spec = \<lparr>ClusterSpec.Paused = False\<rparr>,
        Cluster.Status = \<lparr>ClusterStatus.Phase = ''Provisioned'',
          ClusterStatus.InfrastructureReady = True, ControlPlaneReady = False\<rparr>\<rparr>"
      and newC = "\<lparr>Name = ''c1'', Namespace = ''ns'', Labels = Some [''env'' \<mapsto> ''prod''], Annotations = None,
        Cluster.Spec = \<lparr>ClusterSpec.Paused = True\<rparr>,
        Cluster.Status = \<lparr>ClusterStatus.Phase = ''Provisioned'',
          ClusterStatus.InfrastructureReady = True, ControlPlaneReady = True\<rparr>\<rparr>"
      and oldS = "\<lparr>Name = ''s1'', Namespace = ''ns'', Labels = Some [''env'' \<mapsto> ''prod''], Annotations = None,
        SveltosCluster.Spec = \<lparr>SveltosClusterSpec.Paused = False,
          KubeconfigName = ''kubeconfig''\<rparr>,
        SveltosCluster.Status = \<lparr>Ready = False, Version = ''v1.30''\<rparr>\<rparr>"
      and newS = "\<lparr>Name = ''s1'', Namespace = ''ns'', Labels = Some [''env'' \<mapsto> ''prod''], Annotations = None,
        SveltosCluster.Spec = \<lparr>SveltosClusterSpec.Paused = True,
          KubeconfigName = ''kubeconfig''\<rparr>,
        SveltosCluster.Status = \<lparr>Ready = True, Version = ''v1.30''\<rparr>\<rparr>",
      where ?'fs = nat and ?'rs = string and ?'hs = string]
    cluster_update_verdict [where p = "\<lparr>ClusterPredicate.Logger = ()\<rparr>" and l = "()"
      and oldC = "\<lparr>Name = ''c1'', Namespace = ''ns'', Labels = Some [''env'' \<mapsto> ''prod''], Annotations = None,
        Cluster.Spec = \<lparr>ClusterSpec.Paused = False\<rparr>,
        Cluster.Status = \<lparr>ClusterStatus.Phase = ''Provisioned'',
          ClusterStatus.InfrastructureReady = True, ControlPlaneReady = True\<rparr>\<rparr>"
      and newC = "\<lparr>Name = ''c1'', Namespace = ''ns'', Labels = Some [''env'' \<mapsto> ''dev''], Annotations = None,
        Cluster.Spec = \<lparr>ClusterSpec.Paused = False\<rparr>,
        Cluster.Status = \<lparr>ClusterStatus.Phase = ''Provisioned'',
          ClusterStatus.InfrastructureReady = True, ControlPlaneReady = True\<rparr>\<rparr>"
      and oldS = "\<lparr>Name = ''s1'', Namespace = ''ns'', Labels = None, Annotations = None,
        SveltosCluster.Spec = \<lparr>SveltosClusterSpec.Paused = False,
          KubeconfigName = ''kubeconfig''\<rparr>,
        SveltosCluster.Status = \<lparr>Ready = True, Version = ''v1.30''\<rparr>\<rparr>"
      and newS = "\<lparr>Name = ''s1'', Namespace = ''ns'', Labels = Some Map.empty, Annotations = None,
        SveltosCluster.Spec = \<lparr>SveltosClusterSpec.Paused = False,
          KubeconfigName = ''kubeconfig''\<rparr>,
        SveltosCluster.Status = \<lparr>Ready = True, Version = ''v1.30''\<rparr>\<rparr>",
      where ?'fs = nat and ?'rs = string and ?'hs = string]
    cluster_update_verdict [where p = "\<lparr>ClusterPredicate.Logger = ()\<rparr>" and l = "()"
      and oldC = "\<lparr>Name = ''c1'', Namespace = ''ns'', Labels = Some [''env'' \<mapsto> ''prod''], Annotations = None,
        Cluster.Spec = \<lparr>ClusterSpec.Paused = True\<rparr>,
        Cluster.Status = \<lparr>ClusterStatus.Phase = ''Provisioned'',
          ClusterStatus.InfrastructureReady = True, ControlPlaneReady = True\<rparr>\<rparr>"
      and newC = "\<lparr>Name = ''c1'', Namespace = ''ns'', Labels = Some [''env'' \<mapsto> ''prod''], Annotations = None,
        Cluster.Spec = \<lparr>ClusterSpec.Paused = False\<rparr>,
        Cluster.Status = \<lparr>ClusterStatus.Phase = ''Provisioned'',
          ClusterStatus.InfrastructureReady = True, ControlPlaneReady = True\<rparr>\<rparr>"
      and oldS = "\<lparr>Name = ''s1'', Namespace = ''ns'', Labels = Some [''env'' \<mapsto> ''prod''], Annotations = None,
        SveltosCluster.Spec = \<lparr>SveltosClusterSpec.Paused = False,
          KubeconfigName = ''kubeconfig''\<rparr>,
        SveltosCluster.Status = \<lparr>Ready = True, Version = ''v1.30''\<rparr>\<rparr>"
      and newS = "\<lparr>Name = ''s1'', Namespace = ''ns'', Labels = Some [''env'' \<mapsto> ''prod''], Annotations = None,
        SveltosCluster.Spec = \<lparr>SveltosClusterSpec.Paused = False,
          KubeconfigName = ''kubeconfig''\<rparr>,
        SveltosCluster.Status = \<lparr>Ready = True, Version = ''v1.31''\<rparr>\<rparr>",
      where ?'fs = nat and ?'rs = string and ?'hs = string]
  by (auto simp: labelSet_nil labelSet_empty labelSet_Some_eq_iff dest: map_upd_eqD1)

text \<open>
  C10. The Update verdict of \<^verbatim>\<open>ClusterPredicate\<close> is a function of four values only: the
  old and the new \<^verbatim>\<open>Spec.Paused\<close> and the old and the new label map. Two Update
  notifications with both snapshots present that agree on these four values get the same
  verdict, whatever logger the predicate holds and whatever the other fields are. In
  particular an Update is not relevant when the cluster was not unpaused and the labels
  are the same, and so an Update that changes nothing but the status (readiness
  included) is never relevant.
\<close>

theorem cluster_update_depends_only_on_paused_and_labels:
  "(ClusterSpec.Paused (Cluster.Spec old1) = ClusterSpec.Paused (Cluster.Spec old2)
      \<and> ClusterSpec.Paused (Cluster.Spec new1) = ClusterSpec.Paused (Cluster.Spec new2)
      \<and> Labels old1 = Labels old2 \<and> Labels new1 = Labels new2 \<longrightarrow>
      ClusterPredicate_Update p \<lparr>ObjectOld = Some old1, ObjectNew = Some new1\<rparr> =
      ClusterPredicate_Update q \<lparr>ObjectOld = Some old2, ObjectNew = Some new2\<rparr>)
   \<and> (\<not> (ClusterSpec.Paused (Cluster.Spec old1) \<and> \<not> ClusterSpec.Paused (Cluster.Spec new1))
      \<and> Labels old1 = Labels new1 \<longrightarrow>
      ClusterPredicate_Update p \<lparr>ObjectOld = Some old1, ObjectNew = Some new1\<rparr> = Inr False)
   \<and> ClusterPredicate_Update p
        \<lparr>ObjectOld = Some old1, ObjectNew = Some (old1\<lparr>Cluster.Status := st\<rparr>)\<rparr> = Inr False"
proof (intro conjI impI)
  assume same: "ClusterSpec.Paused (Cluster.Spec old1) = ClusterSpec.Paused (Cluster.Spec old2)
      \<and> ClusterSpec.Paused (Cluster.Spec new1) = ClusterSpec.Paused (Cluster.Spec new2)
      \<and> Labels old1 = Labels old2 \<and> Labels new1 = Labels new2"
  have "ClusterPredicate_Update p \<lparr>ObjectOld = Some old1, ObjectNew = Some new1\<rparr> =
     Inr (ClusterSpec.Paused (Cluster.Spec old1) \<and> \<not> ClusterSpec.Paused (Cluster.Spec new1)
          \<or> \<not> DeepEqual (Labels old1) (Labels new1))"
    by (rule ClusterPredicate_Update_present)
  also have "\<dots> =
     Inr (ClusterSpec.Paused (Cluster.Spec old2) \<and> \<not> ClusterSpec.Paused (Cluster.Spec new2)
          \<or> \<not> DeepEqual (Labels old2) (Labels new2))"
    using same by simp
  also have "\<dots> = ClusterPredicate_Update q \<lparr>ObjectOld = Some old2, ObjectNew = Some new2\<rparr>"
    by (rule ClusterPredicate_Update_present [symmetric])
  finally show "ClusterPredicate_Update p \<lparr>ObjectOld = Some old1, ObjectNew = Some new1\<rparr> =
      ClusterPredicate_Update q \<lparr>ObjectOld = Some old2, ObjectNew = Some new2\<rparr>" .
next
  assume "\<not> (ClusterSpec.Paused (Cluster.Spec old1) \<and> \<not> ClusterSpec.Paused (Cluster.Spec new1))
      \<and> Labels old1 = Labels new1"
  then show "ClusterPredicate_Update p \<lparr>ObjectOld = Some old1, ObjectNew = Some new1\<rparr> = Inr False"
    by (simp add: ClusterPredicate_Update_present DeepEqual_def)
next
  show "ClusterPredicate_Update p
        \<lparr>ObjectOld = Some old1, ObjectNew = Some (old1\<lparr>Cluster.Status := st\<rparr>)\<rparr> = Inr False"
    by (simp add: ClusterPredicate_Update_present DeepEqual_def)
qed

theorem cluster_update_depends_only_on_paused_and_labels_witness:
  "ClusterPredicate_Update \<lparr>ClusterPredicate.Logger = (0::nat)\<rparr>
     \<lparr>ObjectOld = Some
       \<lparr>Name = ''c1'', Namespace = ''ns'', Labels = Some [''env'' \<mapsto> ''prod''], Annotations = None,
        Cluster.Spec = \<lparr>ClusterSpec.Paused = True\<rparr>,
        Cluster.Status = \<lparr>ClusterStatus.Phase = ''Provisioning'',
          ClusterStatus.InfrastructureReady = False, ControlPlaneReady = False\<rparr>\<rparr>,
      ObjectNew = Some
       \<lparr>Name = ''c1'', Namespace = ''ns'', Labels = Some [''env'' \<mapsto> ''prod''], Annotations = None,
        Cluster.Spec = \<lparr>ClusterSpec.Paused = True\<rparr>,
        Cluster.Status = \<lparr>ClusterStatus.Phase = ''Provisioned'',
          ClusterStatus.InfrastructureReady = True, ControlPlaneReady = True\<rparr>\<rparr>\<rparr> =
   ClusterPredicate_Update \<lparr>ClusterPredicate.Logger = ''other logger''\<rparr>
     \<lparr>ObjectOld = Some
       \<lparr>Name = ''c2'', Namespace = ''ns'', Labels = Some [''env'' \<mapsto> ''prod''], Annotations = None,
        Cluster.Spec = \<lparr>ClusterSpec.Paused = True\<rparr>,
        Cluster.Status = \<lparr>ClusterStatus.Phase = ''Provisioned'',
          ClusterStatus.InfrastructureReady = True, ControlPlaneReady = True\<rparr>\<rparr>,
      ObjectNew = Some
       \<lparr>Name = ''c2'', Namespace = ''ns'', Labels = Some [''env'' \<mapsto> ''prod''], Annotations = None,
        Cluster.Spec = \<lparr>ClusterSpec.Paused = True\<rparr>,
        Cluster.Status = \<lparr>ClusterStatus.Phase = ''Deleting'',
          ClusterStatus.InfrastructureReady = True, ControlPlaneReady = False\<rparr>\<rparr>\<rparr>
   \<and> ClusterPredicate_Update \<lparr>ClusterPredicate.Logger = (0::nat)\<rparr>
     \<lparr>ObjectOld = Some
       \<lparr>Name = ''c1'', Namespace = ''ns'', Labels = Some [''env'' \<mapsto> ''prod''], Annotations = None,
        Cluster.Spec = \<lparr>ClusterSpec.Paused = True\<rparr>,
        Cluster.Status = \<lparr>ClusterStatus.Phase = ''Provisioning'',
          ClusterStatus.InfrastructureReady = False, ControlPlaneReady = False\<rparr>\<rparr>,
      ObjectNew = Some
       \<lparr>Name = ''c1'', Namespace = ''ns'', Labels = Some [''env'' \<mapsto> ''prod''], Annotations = None,
        Cluster.Spec = \<lparr>ClusterSpec.Paused = True\<rparr>,
        Cluster.Status = \<lparr>ClusterStatus.Phase = ''Provisioned'',
          ClusterStatus.InfrastructureReady = True, ControlPlaneReady = True\<rparr>\<rparr>\<rparr> = Inr False"
  using cluster_update_depends_only_on_paused_and_labels
     [where p = "\<lparr>ClusterPredicate.Logger = (0::nat)\<rparr>"
      and q = "\<lparr>ClusterPredicate.Logger = ''other logger''\<rparr>"
      and ?old1.0 = "\<lparr>Name = ''c1'', Namespace = ''ns'', Labels = Some [''env'' \<mapsto> ''prod''], Annotations = None,
        Cluster.Spec = \<lparr>ClusterSpec.Paused = True\<rparr>,
        Cluster.Status = \<lparr>ClusterStatus.Phase = ''Provisioning'',
          ClusterStatus.InfrastructureReady = False, ControlPlaneReady = False\<rparr>\<rparr>"
      and ?new1.0 = "\<lparr>Name = ''c1'', Namespace = ''ns'', Labels = Some [''env'' \<mapsto> ''prod''], Annotations = None,
        Cluster.Spec = \<lparr>ClusterSpec.Paused = True\<rparr>,
        Cluster.Status = \<lparr>ClusterStatus.Phase = ''Provisioned'',
          ClusterStatus.InfrastructureReady = True, ControlPlaneReady = True\<rparr>\<rparr>"
      and ?old2.0 = "\<lparr>Name = ''c2'', Namespace = ''ns'', Labels = Some [''env'' \<mapsto> ''prod''], Annotations = None,
        Cluster.Spec = \<lparr>ClusterSpec.Paused = True\<rparr>,
        Cluster.Status = \<lparr>ClusterStatus.Phase = ''Provisioned'',
          ClusterStatus.InfrastructureReady = True, ControlPlaneReady = True\<rparr>\<rparr>"
      and ?new2.0 = "\<lparr>Name = ''c2'', Namespace = ''ns'', Labels = Some [''env'' \<mapsto> ''prod''], Annotations = None,
        Cluster.Spec = \<lparr>ClusterSpec.Paused = True\<rparr>,
        Cluster.Status = \<lparr>ClusterStatus.Phase = ''Deleting'',
          ClusterStatus.InfrastructureReady = True, ControlPlaneReady = False\<rparr>\<rparr>"
      and st = "\<lparr>ClusterStatus.Phase = ''Provisioned'',
          ClusterStatus.InfrastructureReady = True, ControlPlaneReady = True\<rparr>"]
    cluster_update_depends_only_on_paused_and_labels
     [where p = "\<lparr>ClusterPredicate.Logger = ''other logger''\<rparr>"
      and q = "\<lparr>ClusterPredicate.Logger = (0::nat)\<rparr>"
      and ?old1.0 = "\<lparr>Name = ''c2'', Namespace = ''ns'', Labels = Some [''env'' \<mapsto> ''prod''], Annotations = None,
        Cluster.Spec = \<lparr>ClusterSpec.Paused = True\<rparr>,
        Cluster.Status = \<lparr>ClusterStatus.Phase = ''Provisioned'',
          ClusterStatus.InfrastructureReady = True, ControlPlaneReady = True\<rparr>\<rparr>"
      and ?new1.0 = "\<lparr>Name = ''c2'', Namespace = ''ns'', Labels = Some [''env'' \<mapsto> ''prod''], Annotations = None,
        Cluster.Spec = \<lparr>ClusterSpec.Paused = True\<rparr>,
        Cluster.Status = \<lparr>ClusterStatus.Phase = ''Deleting'',
          ClusterStatus.InfrastructureReady = True, ControlPlaneReady = False\<rparr>\<rparr>"
      and ?old2.0 = "\<lparr>Name = ''c1'', Namespace = ''ns'', Labels = Some [''env'' \<mapsto> ''prod''], Annotations = None,
        Cluster.Spec = \<lparr>ClusterSpec.Paused = True\<rparr>,
        Cluster.Status = \<lparr>ClusterStatus.Phase = ''Provisioning'',
          ClusterStatus.InfrastructureReady = False, ControlPlaneReady = False\<rparr>\<rparr>"
      and ?new2.0 = "\<lparr>Name = ''c1'', Namespace = ''ns'', Labels = Some [''env'' \<mapsto> ''prod''], Annotations = None,
        Cluster.Spec = \<lparr>ClusterSpec.Paused = True\<rparr>,
        Cluster.Status = \<lparr>ClusterStatus.Phase = ''Provisioned'',
          ClusterStatus.InfrastructureReady = True, ControlPlaneReady = True\<rparr>\<rparr>"
      and st = "\<lparr>ClusterStatus.Phase = ''Provisioned'',
          ClusterStatus.InfrastructureReady = True, ControlPlaneReady = True\<rparr>"]
  by simp

subsection \<open>Machines\<close>

text \<open>
  C3. For a machine Update notification: when the typed phase of the new snapshot is not
  \<^verbatim>\<open>Running\<close> the verdict is false, whether or not the old snapshot is present. When the
  new phase is \<^verbatim>\<open>Running\<close> and the old snapshot is present, the verdict is true exactly
  when the old phase was not \<^verbatim>\<open>Running\<close>. An update from \<^verbatim>\<open>Running\<close> to \<^verbatim>\<open>Running\<close> is
  never relevant, whatever else changed in the machine.
\<close>

theorem machine_update_verdict:
  "(GetTypedPhase (Machine.Status newM) \<noteq> MachinePhaseRunning \<longrightarrow>
      MachinePredicate_Update p \<lparr>ObjectOld = oldPtr, ObjectNew = Some newM\<rparr> = Inr False)
   \<and> (GetTypedPhase (Machine.Status newM) = MachinePhaseRunning \<longrightarrow>
      MachinePredicate_Update p \<lparr>ObjectOld = Some oldM, ObjectNew = Some newM\<rparr> =
      Inr (GetTypedPhase (Machine.Status oldM) \<noteq> MachinePhaseRunning))
   \<and> (GetTypedPhase (Machine.Status oldM) = MachinePhaseRunning
      \<and> GetTypedPhase (Machine.Status newM) = MachinePhaseRunning \<longrightarrow>
      MachinePredicate_Update p \<lparr>ObjectOld = Some oldM, ObjectNew = Some newM\<rparr> = Inr False)"
proof (intro conjI impI)
  assume "GetTypedPhase (Machine.Status newM) \<noteq> MachinePhaseRunning"
  then show "MachinePredicate_Update p \<lparr>ObjectOld = oldPtr, ObjectNew = Some newM\<rparr> = Inr False"
    unfolding MachinePredicate_Update_def by simp
next
  assume "GetTypedPhase (Machine.Status newM) = MachinePhaseRunning"
  then show "MachinePredicate_Update p \<lparr>ObjectOld = Some oldM, ObjectNew = Some newM\<rparr> =
      Inr (GetTypedPhase (Machine.Status oldM) \<noteq> MachinePhaseRunning)"
    by (simp add: MachinePredicate_Update_present)
next
  assume "GetTypedPhase (Machine.Status oldM) = MachinePhaseRunning
      \<and> GetTypedPhase (Machine.Status newM) = MachinePhaseRunning"
  then show "MachinePredicate_Update p \<lparr>ObjectOld = Some oldM, ObjectNew = Some newM\<rparr> = Inr False"
    by (simp add: MachinePredicate_Update_present)
qed

theorem machine_update_verdict_witness:
  "MachinePredicate_Update \<lparr>MachinePredicate.Logger = ()\<rparr>
     \<lparr>ObjectOld = Some
       \<lparr>Name = ''m1'', Namespace = ''ns'', Labels = None, Annotations = None,
        Machine.Spec = \<lparr>ClusterName = ''c1''\<rparr>,
        Machine.Status = \<lparr>MachineStatus.Phase = ''Running'', BootstrapReady = True,
          MachineStatus.InfrastructureReady = True\<rparr>\<rparr>,
      ObjectNew = Some
       \<lparr>Name = ''m1'', Namespace = ''ns'', Labels = None, Annotations = None,
        Machine.Spec = \<lparr>ClusterName = ''c1''\<rparr>,
        Machine.Status = \<lparr>MachineStatus.Phase = ''Pending'', BootstrapReady = False,
          MachineStatus.InfrastructureReady = False\<rparr>\<rparr>\<rparr> = Inr False
   \<and> MachinePredicate_Update \<lparr>MachinePredicate.Logger = ()\<rparr>
     \<lparr>ObjectOld = Some
       \<lparr>Name = ''m1'', Namespace = ''ns'', Labels = None, Annotations = None,
        Machine.Spec = \<lparr>ClusterName = ''c1''\<rparr>,
        Machine.Status = \<lparr>MachineStatus.Phase = ''Provisioning'', BootstrapReady = False,
          MachineStatus.InfrastructureReady = False\<rparr>\<rparr>,
      ObjectNew = Some
       \<lparr>Name = ''m1'', Namespace = ''ns'', Labels = None, Annotations = None,
        Machine.Spec = \<lparr>ClusterName = ''c1''\<rparr>,
        Machine.Status = \<lparr>MachineStatus.Phase = ''Running'', BootstrapReady = True,
          MachineStatus.InfrastructureReady = True\<rparr>\<rparr>\<rparr> = Inr True
   \<and> MachinePredicate_Update \<lparr>MachinePredicate.Logger = ()\<rparr>
     \<lparr>ObjectOld = Some
       \<lparr>Name = ''m1'', Namespace = ''ns'', Labels = None, Annotations = None,
        Machine.Spec = \<lparr>ClusterName = ''c1''\<rparr>,
        Machine.Status = \<lparr>MachineStatus.Phase = ''Running'', BootstrapReady = True,
          MachineStatus.InfrastructureReady = True\<rparr>\<rparr>,
      ObjectNew = Some
       \<lparr>Name = ''m1'', Namespace = ''ns'', Labels = Some [''zone'' \<mapsto> ''a''], Annotations = None,
        Machine.Spec = \<lparr>ClusterName = ''c2''\<rparr>,
        Machine.Status = \<lparr>MachineStatus.Phase = ''Running'', BootstrapReady = True,
          MachineStatus.InfrastructureReady = False\<rparr>\<rparr>\<rparr> = Inr False"
  using machine_update_verdict [where p = "\<lparr>MachinePredicate.Logger = ()\<rparr>"
      and oldPtr = "Some
       \<lparr>Name = ''m1'', Namespace = ''ns'', Labels = None, Annotations = None,
        Machine.Spec = \<lparr>ClusterName = ''c1''\<rparr>,
        Machine.Status = \<lparr>MachineStatus.Phase = ''Running'', BootstrapReady = True,
          MachineStatus.InfrastructureReady = True\<rparr>\<rparr>"
      and oldM = "\<lparr>Name = ''m1'', Namespace = ''ns'', Labels = None, Annotations = None,
        Machine.Spec = \<lparr>ClusterName = ''c1''\<rparr>,
        Machine.Status = \<lparr>MachineStatus.Phase = ''Running'', BootstrapReady = True,
          MachineStatus.InfrastructureReady = True\<rparr>\<rparr>"
      and newM = "\<lparr>Name = ''m1'', Namespace = ''ns'', Labels = None, Annotations = None,
        Machine.Spec = \<lparr>ClusterName = ''c1''\<rparr>,
        Machine.Status = \<lparr>MachineStatus.Phase = ''Pending'', BootstrapReady = False,
          MachineStatus.InfrastructureReady = False\<rparr>\<rparr>"]
    machine_update_verdict [where p = "\<lparr>MachinePredicate.Logger = ()\<rparr>"
      and oldPtr = "None"
      and oldM = "\<lparr>Name = ''m1'', Namespace = ''ns'', Labels = None, Annotations = None,
        Machine.Spec = \<lparr>ClusterName = ''c1''\<rparr>,
        Machine.Status = \<lparr>MachineStatus.Phase = ''Provisioning'', BootstrapReady = False,
          MachineStatus.InfrastructureReady = False\<rparr>\<rparr>"
      and newM = "\<lparr>Name = ''m1'', Namespace = ''ns'', Labels = None, Annotations = None,
        Machine.Spec = \<lparr>ClusterName = ''c1''\<rparr>,
        Machine.Status = \<lparr>MachineStatus.Phase = ''Running'', BootstrapReady = True,
          MachineStatus.InfrastructureReady = True\<rparr>\<rparr>"]
    machine_update_verdict [where p = "\<lparr>MachinePredicate.Logger = ()\<rparr>"
      and oldPtr = "None"
      and oldM = "\<lparr>Name = ''m1'', Namespace = ''ns'', Labels = None, Annotations = None,
        Machine.Spec = \<lparr>ClusterName = ''c1''\<rparr>,
        Machine.Status = \<lparr>MachineStatus.Phase = ''Running'', BootstrapReady = True,
          MachineStatus.InfrastructureReady = True\<rparr>\<rparr>"
      and newM = "\<lparr>Name = ''m1'', Namespace = ''ns'', Labels = Some [''zone'' \<mapsto> ''a''], Annotations = None,
        Machine.Spec = \<lparr>ClusterName = ''c2''\<rparr>,
        Machine.Status = \<lparr>MachineStatus.Phase = ''Running'', BootstrapReady = True,
          MachineStatus.InfrastructureReady = False\<rparr>\<rparr>"]
  by (simp add: GetTypedPhase_Running_iff)

text \<open>
  C4. A machine Create notification is relevant exactly when the machine's typed phase is
  \<^verbatim>\<open>Running\<close>; a machine Delete notification is never relevant.
\<close>

theorem machine_create_delete:
  "MachinePredicate_Create p \<lparr>TypedCreateEvent.Object = Some m\<rparr> =
     Inr (GetTypedPhase (Machine.Status m) = MachinePhaseRunning)
   \<and> MachinePredicate_Delete p \<lparr>TypedDeleteEvent.Object = Some m, DeleteStateUnknown = u\<rparr> =
     Inr False"
proof
  show "MachinePredicate_Create p \<lparr>TypedCreateEvent.Object = Some m\<rparr> =
     Inr (GetTypedPhase (Machine.Status m) = MachinePhaseRunning)"
    by (cases "GetTypedPhase (Machine.Status m) = MachinePhaseRunning")
       (simp_all add: MachinePredicate_Create_def)
  show "MachinePredicate_Delete p \<lparr>TypedDeleteEvent.Object = Some m, DeleteStateUnknown = u\<rparr> =
     Inr False"
    by (simp add: MachinePredicate_Delete_def GetNamespace_Some GetName_Some)
qed

theorem machine_create_delete_witness:
  "MachinePredicate_Create \<lparr>MachinePredicate.Logger = ()\<rparr>
     \<lparr>TypedCreateEvent.Object = Some
       \<lparr>Name = ''m1'', Namespace = ''ns'', Labels = None, Annotations = None,
        Machine.Spec = \<lparr>ClusterName = ''c1''\<rparr>,
        Machine.Status = \<lparr>MachineStatus.Phase = ''Running'', BootstrapReady = True,
          MachineStatus.InfrastructureReady = True\<rparr>\<rparr>\<rparr> = Inr True
   \<and> MachinePredicate_Create \<lparr>MachinePredicate.Logger = ()\<rparr>
     \<lparr>TypedCreateEvent.Object = Some
       \<lparr>Name = ''m1'', Namespace = ''ns'', Labels = None, Annotations = None,
        Machine.Spec = \<lparr>ClusterName = ''c1''\<rparr>,
        Machine.Status = \<lparr>MachineStatus.Phase = ''Pending'', BootstrapReady = False,
          MachineStatus.InfrastructureReady = False\<rparr>\<rparr>\<rparr> = Inr False
   \<and> MachinePredicate_Delete \<lparr>MachinePredicate.Logger = ()\<rparr>
     \<lparr>TypedDeleteEvent.Object = Some
       \<lparr>Name = ''m1'', Namespace = ''ns'', Labels = None, Annotations = None,
        Machine.Spec = \<lparr>ClusterName = ''c1''\<rparr>,
        Machine.Status = \<lparr>MachineStatus.Phase = ''Running'', BootstrapReady = True,
          MachineStatus.InfrastructureReady = True\<rparr>\<rparr>,
      DeleteStateUnknown = False\<rparr> = Inr False"
  using machine_create_delete [where p = "\<lparr>MachinePredicate.Logger = ()\<rparr>" and u = False
      and m = "\<lparr>Name = ''m1'', Namespace = ''ns'', Labels = None, Annotations = None,
        Machine.Spec = \<lparr>ClusterName = ''c1''\<rparr>,
        Machine.Status = \<lparr>MachineStatus.Phase = ''Running'', BootstrapReady = True,
          MachineStatus.InfrastructureReady = True\<rparr>\<rparr>"]
    machine_create_delete [where p = "\<lparr>MachinePredicate.Logger = ()\<rparr>" and u = False
      and m = "\<lparr>Name = ''m1'', Namespace = ''ns'', Labels = None, Annotations = None,
        Machine.Spec = \<lparr>ClusterName = ''c1''\<rparr>,
        Machine.Status = \<lparr>MachineStatus.Phase = ''Pending'', BootstrapReady = False,
          MachineStatus.InfrastructureReady = False\<rparr>\<rparr>"]
  by (simp add: GetTypedPhase_Running_iff)

subsection \<open>Resync notifications\<close>

text \<open>
  C5. A Generic (resync) notification is never relevant, for any kind and whatever the
  object holds: each of the six Generic callbacks returns false on every present object.
\<close>

theorem generic_never_relevant:
  "ClusterPredicate_Generic p \<lparr>TypedGenericEvent.Object = Some c\<rparr> = Inr False
   \<and> MachinePredicate_Generic q \<lparr>TypedGenericEvent.Object = Some m\<rparr> = Inr False
   \<and> (present ob \<longrightarrow>
        GenericFunc (SveltosClusterPredicates l :: ('fs, 'rs, 'hs) Object Funcs)
          \<lparr>TypedGenericEvent.Object = ob\<rparr> = Inr False
      \<and> GenericFunc (ClusterSummaryPredicates l :: ('fs, 'rs, 'hs) Object Funcs)
          \<lparr>TypedGenericEvent.Object = ob\<rparr> = Inr False
      \<and> GenericFunc (HealthCheckReportPredicates l :: ('fs, 'rs, 'hs) Object Funcs)
          \<lparr>TypedGenericEvent.Object = ob\<rparr> = Inr False
      \<and> GenericFunc (HealthCheckPredicates l :: ('fs, 'rs, 'hs) Object Funcs)
          \<lparr>TypedGenericEvent.Object = ob\<rparr> = Inr False)"
proof (intro conjI impI)
  show "ClusterPredicate_Generic p \<lparr>TypedGenericEvent.Object = Some c\<rparr> = Inr False"
    by (simp add: ClusterPredicate_Generic_def GetNamespace_Some GetName_Some)
  show "MachinePredicate_Generic q \<lparr>TypedGenericEvent.Object = Some m\<rparr> = Inr False"
    by (simp add: MachinePredicate_Generic_def GetNamespace_Some GetName_Some)
next
  assume "present ob"
  then obtain ns n where names: "Object_GetNamespace ob = Inr ns" "Object_GetName ob = Inr n"
    by (rule present_names)
  from names show "GenericFunc (SveltosClusterPredicates l :: ('fs, 'rs, 'hs) Object Funcs)
          \<lparr>TypedGenericEvent.Object = ob\<rparr> = Inr False"
    by (simp add: SveltosClusterPredicates_def)
  from names show "GenericFunc (ClusterSummaryPredicates l :: ('fs, 'rs, 'hs) Object Funcs)
          \<lparr>TypedGenericEvent.Object = ob\<rparr> = Inr False"
    by (simp add: ClusterSummaryPredicates_def)
  from names show "GenericFunc (HealthCheckReportPredicates l :: ('fs, 'rs, 'hs) Object Funcs)
          \<lparr>TypedGenericEvent.Object = ob\<rparr> = Inr False"
    by (simp add: HealthCheckReportPredicates_def)
  from names show "GenericFunc (HealthCheckPredicates l :: ('fs, 'rs, 'hs) Object Funcs)
          \<lparr>TypedGenericEvent.Object = ob\<rparr> = Inr False"
    by (simp add: HealthCheckPredicates_def)
qed

theorem generic_never_relevant_witness:
  "ClusterPredicate_Generic \<lparr>ClusterPredicate.Logger = ()\<rparr>
     \<lparr>TypedGenericEvent.Object = Some
       \<lparr>Name = ''c1'', Namespace = ''ns'', Labels = None, Annotations = None,
        Cluster.Spec = \<lparr>ClusterSpec.Paused = False\<rparr>,
        Cluster.Status = \<lparr>ClusterStatus.Phase = ''Provisioned'',
          ClusterStatus.InfrastructureReady = True, ControlPlaneReady = True\<rparr>\<rparr>\<rparr> = Inr False
   \<and> MachinePredicate_Generic \<lparr>MachinePredicate.Logger = ()\<rparr>
     \<lparr>TypedGenericEvent.Object = Some
       \<lparr>Name = ''m1'', Namespace = ''ns'', Labels = None, Annotations = None,
        Machine.Spec = \<lparr>ClusterName = ''c1''\<rparr>,
        Machine.Status = \<lparr>MachineStatus.Phase = ''Running'', BootstrapReady = True,
          MachineStatus.InfrastructureReady = True\<rparr>\<rparr>\<rparr> = Inr False
   \<and> GenericFunc (SveltosClusterPredicates () :: (nat, string, string) Object Funcs)
     \<lparr>TypedGenericEvent.Object = HealthCheckReportPtr (Some
       \<lparr>Name = ''r1'', Namespace = ''ns'', Labels = None, Annotations = None,
        HealthCheckReport.Spec = ''healthy'',
        HealthCheckReport.Status = \<lparr>HealthCheckReportStatus.Phase = None\<rparr>\<rparr>)\<rparr> = Inr False
   \<and> GenericFunc (ClusterSummaryPredicates () :: (nat, string, string) Object Funcs)
     \<lparr>TypedGenericEvent.Object = HealthCheckReportPtr (Some
       \<lparr>Name = ''r1'', Namespace = ''ns'', Labels = None, Annotations = None,
        HealthCheckReport.Spec = ''healthy'',
        HealthCheckReport.Status = \<lparr>HealthCheckReportStatus.Phase = None\<rparr>\<rparr>)\<rparr> = Inr False
   \<and> GenericFunc (HealthCheckReportPredicates () :: (nat, string, string) Object Funcs)
     \<lparr>TypedGenericEvent.Object = HealthCheckReportPtr (Some
       \<lparr>Name = ''r1'', Namespace = ''ns'', Labels = None, Annotations = None,
        HealthCheckReport.Spec = ''healthy'',
        HealthCheckReport.Status = \<lparr>HealthCheckReportStatus.Phase = None\<rparr>\<rparr>)\<rparr> = Inr False
   \<and> GenericFunc (HealthCheckPredicates () :: (nat, string, string) Object Funcs)
     \<lparr>TypedGenericEvent.Object = HealthCheckReportPtr (Some
       \<lparr>Name = ''r1'', Namespace = ''ns'', Labels = None, Annotations = None,
        HealthCheckReport.Spec = ''healthy'',
        HealthCheckReport.Status = \<lparr>HealthCheckReportStatus.Phase = None\<rparr>\<rparr>)\<rparr> = Inr False"
  using generic_never_relevant [where p = "\<lparr>ClusterPredicate.Logger = ()\<rparr>" and q = "\<lparr>MachinePredicate.Logger = ()\<rparr>" and l = "()"
      and c = "\<lparr>Name = ''c1'', Namespace = ''ns'', Labels = None, Annotations = None,
        Cluster.Spec = \<lparr>ClusterSpec.Paused = False\<rparr>,
        Cluster.Status = \<lparr>ClusterStatus.Phase = ''Provisioned'',
          ClusterStatus.InfrastructureReady = True, ControlPlaneReady = True\<rparr>\<rparr>"
      and m = "\<lparr>Name = ''m1'', Namespace = ''ns'', Labels = None, Annotations = None,
        Machine.Spec = \<lparr>ClusterName = ''c1''\<rparr>,
        Machine.Status = \<lparr>MachineStatus.Phase = ''Running'', BootstrapReady = True,
          MachineStatus.InfrastructureReady = True\<rparr>\<rparr>"
      and ob = "HealthCheckReportPtr (Some
       \<lparr>Name = ''r1'', Namespace = ''ns'', Labels = None, Annotations = None,
        HealthCheckReport.Spec = ''healthy'',
        HealthCheckReport.Status = \<lparr>HealthCheckReportStatus.Phase = None\<rparr>\<rparr>) :: (nat, string, string) Object"]
  by simp

subsection \<open>Health-check reports and health-check definitions\<close>

text \<open>
  C6. For the \<^verbatim>\<open>HealthCheckReport\<close> predicate and for the \<^verbatim>\<open>HealthCheck\<close> predicate alike:
  Create is always relevant and Delete is always relevant (on every present object), and
  an Update with both snapshots present is relevant exactly when the old and the new
  \<^verbatim>\<open>Spec\<close> are not deeply equal.
\<close>

theorem report_and_healthcheck_verdicts:
  "(present ob \<longrightarrow>
        CreateFunc (HealthCheckReportPredicates l :: ('fs, 'rs, 'hs) Object Funcs)
          \<lparr>TypedCreateEvent.Object = ob\<rparr> = Inr True
      \<and> DeleteFunc (HealthCheckReportPredicates l :: ('fs, 'rs, 'hs) Object Funcs)
          \<lparr>TypedDeleteEvent.Object = ob, DeleteStateUnknown = u\<rparr> = Inr True
      \<and> CreateFunc (HealthCheckPredicates l :: ('fs, 'rs, 'hs) Object Funcs)
          \<lparr>TypedCreateEvent.Object = ob\<rparr> = Inr True
      \<and> DeleteFunc (HealthCheckPredicates l :: ('fs, 'rs, 'hs) Object Funcs)
          \<lparr>TypedDeleteEvent.Object = ob, DeleteStateUnknown = u\<rparr> = Inr True)
   \<and> UpdateFunc (HealthCheckReportPredicates l :: ('fs, 'rs, 'hs) Object Funcs)
        \<lparr>ObjectOld = HealthCheckReportPtr (Some oldHCR),
         ObjectNew = HealthCheckReportPtr (Some newHCR)\<rparr> =
      Inr (\<not> DeepEqual (HealthCheckReport.Spec oldHCR) (HealthCheckReport.Spec newHCR))
   \<and> UpdateFunc (HealthCheckPredicates l :: ('fs, 'rs, 'hs) Object Funcs)
        \<lparr>ObjectOld = HealthCheckPtr (Some oldHC), ObjectNew = HealthCheckPtr (Some newHC)\<rparr> =
      Inr (\<not> DeepEqual (HealthCheck.Spec oldHC) (HealthCheck.Spec newHC))"
proof -
  have lifecycle:
    "CreateFunc (HealthCheckReportPredicates l :: ('fs, 'rs, 'hs) Object Funcs)
          \<lparr>TypedCreateEvent.Object = ob\<rparr> = Inr True
      \<and> DeleteFunc (HealthCheckReportPredicates l :: ('fs, 'rs, 'hs) Object Funcs)
          \<lparr>TypedDeleteEvent.Object = ob, DeleteStateUnknown = u\<rparr> = Inr True
      \<and> CreateFunc (HealthCheckPredicates l :: ('fs, 'rs, 'hs) Object Funcs)
          \<lparr>TypedCreateEvent.Object = ob\<rparr> = Inr True
      \<and> DeleteFunc (HealthCheckPredicates l :: ('fs, 'rs, 'hs) Object Funcs)
          \<lparr>TypedDeleteEvent.Object = ob, DeleteStateUnknown = u\<rparr> = Inr True"
    if "present ob"
  proof -
    from that obtain ns n where "Object_GetNamespace ob = Inr ns" "Object_GetName ob = Inr n"
      by (rule present_names)
    then show ?thesis
      by (simp add: HealthCheckReportPredicates_def HealthCheckPredicates_def)
  qed
  show ?thesis
    using lifecycle
    by (simp add: HealthCheckReport_UpdateFunc_present HealthCheck_UpdateFunc_present)
qed

theorem report_and_healthcheck_verdicts_witness:
  "CreateFunc (HealthCheckReportPredicates () :: (nat, string, string) Object Funcs)
     \<lparr>TypedCreateEvent.Object = HealthCheckReportPtr (Some
       \<lparr>Name = ''r1'', Namespace = ''ns'', Labels = None, Annotations = None,
        HealthCheckReport.Spec = ''degraded'',
        HealthCheckReport.Status = \<lparr>HealthCheckReportStatus.Phase = None\<rparr>\<rparr>)\<rparr> = Inr True
   \<and> DeleteFunc (HealthCheckPredicates () :: (nat, string, string) Object Funcs)
     \<lparr>TypedDeleteEvent.Object = HealthCheckReportPtr (Some
       \<lparr>Name = ''r1'', Namespace = ''ns'', Labels = None, Annotations = None,
        HealthCheckReport.Spec = ''degraded'',
        HealthCheckReport.Status = \<lparr>HealthCheckReportStatus.Phase = None\<rparr>\<rparr>),
      DeleteStateUnknown = False\<rparr> = Inr True
   \<and> UpdateFunc (HealthCheckReportPredicates () :: (nat, string, string) Object Funcs)
     \<lparr>ObjectOld = HealthCheckReportPtr (Some
       \<lparr>Name = ''r1'', Namespace = ''ns'', Labels = None, Annotations = None,
        HealthCheckReport.Spec = ''healthy'',
        HealthCheckReport.Status = \<lparr>HealthCheckReportStatus.Phase = None\<rparr>\<rparr>),
      ObjectNew = HealthCheckReportPtr (Some
       \<lparr>Name = ''r1'', Namespace = ''ns'', Labels = None, Annotations = None,
        HealthCheckReport.Spec = ''degraded'',
        HealthCheckReport.Status = \<lparr>HealthCheckReportStatus.Phase = None\<rparr>\<rparr>)\<rparr> = Inr True
   \<and> UpdateFunc (HealthCheckPredicates () :: (nat, string, string) Object Funcs)
     \<lparr>ObjectOld = HealthCheckPtr (Some
       \<lparr>Name = ''hc1'', Namespace = '''', Labels = None, Annotations = None,
        HealthCheck.Spec = ''deployments''\<rparr>),
      ObjectNew = HealthCheckPtr (Some
       \<lparr>Name = ''hc1'', Namespace = '''', Labels = Some [''team'' \<mapsto> ''sre''], Annotations = None,
        HealthCheck.Spec = ''deployments''\<rparr>)\<rparr> = Inr False"
  using report_and_healthcheck_verdicts [where l = "()" and u = False
      and ob = "HealthCheckReportPtr (Some
       \<lparr>Name = ''r1'', Namespace = ''ns'', Labels = None, Annotations = None,
        HealthCheckReport.Spec = ''degraded'',
        HealthCheckReport.Status = \<lparr>HealthCheckReportStatus.Phase = None\<rparr>\<rparr>) :: (nat, string, string) Object"
      and oldHCR = "\<lparr>Name = ''r1'', Namespace = ''ns'', Labels = None, Annotations = None,
        HealthCheckReport.Spec = ''healthy'',
        HealthCheckReport.Status = \<lparr>HealthCheckReportStatus.Phase = None\<rparr>\<rparr>"
      and newHCR = "\<lparr>Name = ''r1'', Namespace = ''ns'', Labels = None, Annotations = None,
        HealthCheckReport.Spec = ''degraded'',
        HealthCheckReport.Status = \<lparr>HealthCheckReportStatus.Phase = None\<rparr>\<rparr>"
      and oldHC = "\<lparr>Name = ''hc1'', Namespace = '''', Labels = None, Annotations = None,
        HealthCheck.Spec = ''deployments''\<rparr>"
      and newHC = "\<lparr>Name = ''hc1'', Namespace = '''', Labels = Some [''team'' \<mapsto> ''sre''], Annotations = None,
        HealthCheck.Spec = ''deployments''\<rparr>"]
  by (simp add: DeepEqual_def)

subsection \<open>Cluster summaries\<close>

text \<open>
  C7. For the \<^verbatim>\<open>ClusterSummary\<close> predicate: Create is never relevant and Delete is always
  relevant (on every present object). An Update with both snapshots present is relevant
  exactly when the old and the new \<^verbatim>\<open>Status.FeatureSummaries\<close> are not deeply equal; when
  they are equal the verdict is false whatever else differs between the two snapshots.
\<close>

theorem clustersummary_verdicts:
  "(present ob \<longrightarrow>
        CreateFunc (ClusterSummaryPredicates l :: ('fs, 'rs, 'hs) Object Funcs)
          \<lparr>TypedCreateEvent.Object = ob\<rparr> = Inr False
      \<and> DeleteFunc (ClusterSummaryPredicates l :: ('fs, 'rs, 'hs) Object Funcs)
          \<lparr>TypedDeleteEvent.Object = ob, DeleteStateUnknown = u\<rparr> = Inr True)
   \<and> UpdateFunc (ClusterSummaryPredicates l :: ('fs, 'rs, 'hs) Object Funcs)
        \<lparr>ObjectOld = ClusterSummaryPtr (Some oldCS),
         ObjectNew = ClusterSummaryPtr (Some newCS)\<rparr> =
      Inr (\<not> DeepEqual (FeatureSummaries (ClusterSummary.Status oldCS))
                        (FeatureSummaries (ClusterSummary.Status newCS)))
   \<and> (FeatureSummaries (ClusterSummary.Status oldCS)
        = FeatureSummaries (ClusterSummary.Status newCS) \<longrightarrow>
      UpdateFunc (ClusterSummaryPredicates l :: ('fs, 'rs, 'hs) Object Funcs)
        \<lparr>ObjectOld = ClusterSummaryPtr (Some oldCS),
         ObjectNew = ClusterSummaryPtr (Some newCS)\<rparr> = Inr False)"
proof (intro conjI impI)
  assume "present ob"
  then obtain ns n where names: "Object_GetNamespace ob = Inr ns" "Object_GetName ob = Inr n"
    by (rule present_names)
  from names show "CreateFunc (ClusterSummaryPredicates l :: ('fs, 'rs, 'hs) Object Funcs)
          \<lparr>TypedCreateEvent.Object = ob\<rparr> = Inr False"
    by (simp add: ClusterSummaryPredicates_def)
  from names show "DeleteFunc (ClusterSummaryPredicates l :: ('fs, 'rs, 'hs) Object Funcs)
          \<lparr>TypedDeleteEvent.Object = ob, DeleteStateUnknown = u\<rparr> = Inr True"
    by (simp add: ClusterSummaryPredicates_def)
next
  show "UpdateFunc (ClusterSummaryPredicates l :: ('fs, 'rs, 'hs) Object Funcs)
        \<lparr>ObjectOld = ClusterSummaryPtr (Some oldCS),
         ObjectNew = ClusterSummaryPtr (Some newCS)\<rparr> =
      Inr (\<not> DeepEqual (FeatureSummaries (ClusterSummary.Status oldCS))
                        (FeatureSummaries (ClusterSummary.Status newCS)))"
    by (rule ClusterSummary_UpdateFunc_present)
next
  assume "FeatureSummaries (ClusterSummary.Status oldCS)
        = FeatureSummaries (ClusterSummary.Status newCS)"
  then show "UpdateFunc (ClusterSummaryPredicates l :: ('fs, 'rs, 'hs) Object Funcs)
        \<lparr>ObjectOld = ClusterSummaryPtr (Some oldCS),
         ObjectNew = ClusterSummaryPtr (Some newCS)\<rparr> = Inr False"
    by (simp add: ClusterSummary_UpdateFunc_present DeepEqual_def)
qed

theorem clustersummary_verdicts_witness:
  "CreateFunc (ClusterSummaryPredicates () :: (nat, string, string) Object Funcs)
     \<lparr>TypedCreateEvent.Object = ClusterSummaryPtr (Some
       \<lparr>Name = ''cs1'', Namespace = ''ns'', Labels = None, Annotations = None,
        ClusterSummary.Status = \<lparr>FeatureSummaries = Some [1::nat, 2],
          Dependencies = None\<rparr>\<rparr>)\<rparr> = Inr False
   \<and> DeleteFunc (ClusterSummaryPredicates () :: (nat, string, string) Object Funcs)
     \<lparr>TypedDeleteEvent.Object = ClusterSummaryPtr (Some
       \<lparr>Name = ''cs1'', Namespace = ''ns'', Labels = None, Annotations = None,
        ClusterSummary.Status = \<lparr>FeatureSummaries = Some [1::nat, 2],
          Dependencies = None\<rparr>\<rparr>),
      DeleteStateUnknown = False\<rparr> = Inr True
   \<and> UpdateFunc (ClusterSummaryPredicates () :: (nat, string, string) Object Funcs)
     \<lparr>ObjectOld = ClusterSummaryPtr (Some
       \<lparr>Name = ''cs1'', Namespace = ''ns'', Labels = None, Annotations = None,
        ClusterSummary.Status = \<lparr>FeatureSummaries = Some [1::nat, 2],
          Dependencies = None\<rparr>\<rparr>),
      ObjectNew = ClusterSummaryPtr (Some
       \<lparr>Name = ''cs1'', Namespace = ''ns'', Labels = Some [''tier'' \<mapsto> ''gold''], Annotations = None,
        ClusterSummary.Status = \<lparr>FeatureSummaries = Some [1::nat, 2],
          Dependencies = Some ''profile-a''\<rparr>\<rparr>)\<rparr> = Inr False
   \<and> UpdateFunc (ClusterSummaryPredicates () :: (nat, string, string) Object Funcs)
     \<lparr>ObjectOld = ClusterSummaryPtr (Some
       \<lparr>Name = ''cs1'', Namespace = ''ns'', Labels = None, Annotations = None,
        ClusterSummary.Status = \<lparr>FeatureSummaries = Some [1::nat, 2],
          Dependencies = None\<rparr>\<rparr>),
      ObjectNew = ClusterSummaryPtr (Some
       \<lparr>Name = ''cs1'', Namespace = ''ns'', Labels = None, Annotations = None,
        ClusterSummary.Status = \<lparr>FeatureSummaries = Some [1::nat, 2, 3],
          Dependencies = None\<rparr>\<rparr>)\<rparr> = Inr True"
  using clustersummary_verdicts [where l = "()" and u = False
      and ob = "ClusterSummaryPtr (Some
       \<lparr>Name = ''cs1'', Namespace = ''ns'', Labels = None, Annotations = None,
        ClusterSummary.Status = \<lparr>FeatureSummaries = Some [1::nat, 2],
          Dependencies = None\<rparr>\<rparr>) :: (nat, string, string) Object"
      and oldCS = "\<lparr>Name = ''cs1'', Namespace = ''ns'', Labels = None, Annotations = None,
        ClusterSummary.Status = \<lparr>FeatureSummaries = Some [1::nat, 2],
          Dependencies = None\<rparr>\<rparr>"
      and newCS = "\<lparr>Name = ''cs1'', Namespace = ''ns'', Labels = Some [''tier'' \<mapsto> ''gold''], Annotations = None,
        ClusterSummary.Status = \<lparr>FeatureSummaries = Some [1::nat, 2],
          Dependencies = Some ''profile-a''\<rparr>\<rparr>"]
    clustersummary_verdicts [where l = "()" and u = False
      and ob = "ClusterSummaryPtr (Some
       \<lparr>Name = ''cs1'', Namespace = ''ns'', Labels = None, Annotations = None,
        ClusterSummary.Status = \<lparr>FeatureSummaries = Some [1::nat, 2],
          Dependencies = None\<rparr>\<rparr>) :: (nat, string, string) Object"
      and oldCS = "\<lparr>Name = ''cs1'', Namespace = ''ns'', Labels = None, Annotations = None,
        ClusterSummary.Status = \<lparr>FeatureSummaries = Some [1::nat, 2],
          Dependencies = None\<rparr>\<rparr>"
      and newCS = "\<lparr>Name = ''cs1'', Namespace = ''ns'', Labels = None, Annotations = None,
        ClusterSummary.Status = \<lparr>FeatureSummaries = Some [1::nat, 2, 3],
          Dependencies = None\<rparr>\<rparr>"]
  by (simp add: DeepEqual_def)

subsection \<open>Updates without an old snapshot\<close>

text \<open>
  C1, as stated, says that an Update notification whose old snapshot is nil is relevant
  for every kind, the machine among them, whatever the new snapshot holds. The machine
  predicate tests the phase of the new snapshot before it looks at the old one: with a
  nil old machine and a new machine in the \<^verbatim>\<open>Pending\<close> phase the verdict is false.
\<close>

theorem machine_update_nil_old_counterexample:
  "MachinePredicate_Update \<lparr>MachinePredicate.Logger = ()\<rparr>
     \<lparr>ObjectOld = None,
      ObjectNew = Some
       \<lparr>Name = ''m1'', Namespace = ''ns'', Labels = None, Annotations = None,
        Machine.Spec = \<lparr>ClusterName = ''c1''\<rparr>,
        Machine.Status = \<lparr>MachineStatus.Phase = ''Pending'', BootstrapReady = False,
          MachineStatus.InfrastructureReady = False\<rparr>\<rparr>\<rparr> = Inr False"
  by (simp add: MachinePredicate_Update_def GetTypedPhase_Running_iff)

text \<open>
  C1, amended. An Update notification whose old snapshot is a nil pointer of the kind's
  type, and whose new snapshot is present, is relevant whatever the new snapshot holds for
  the cluster, the \<^verbatim>\<open>SveltosCluster\<close>, the \<^verbatim>\<open>ClusterSummary\<close>, the \<^verbatim>\<open>HealthCheckReport\<close> and
  the \<^verbatim>\<open>HealthCheck\<close>; for the machine it is relevant exactly when the typed phase of the
  new snapshot is \<^verbatim>\<open>Running\<close>.
\<close>

theorem update_nil_old_verdict:
  "ClusterPredicate_Update p \<lparr>ObjectOld = None, ObjectNew = Some newC\<rparr> = Inr True
   \<and> UpdateFunc (SveltosClusterPredicates l :: ('fs, 'rs, 'hs) Object Funcs)
        \<lparr>ObjectOld = SveltosClusterPtr None, ObjectNew = SveltosClusterPtr (Some newS)\<rparr>
      = Inr True
   \<and> MachinePredicate_Update q \<lparr>ObjectOld = None, ObjectNew = Some newM\<rparr>
      = Inr (GetTypedPhase (Machine.Status newM) = MachinePhaseRunning)
   \<and> UpdateFunc (ClusterSummaryPredicates l :: ('fs, 'rs, 'hs) Object Funcs)
        \<lparr>ObjectOld = ClusterSummaryPtr None, ObjectNew = ClusterSummaryPtr (Some newCS)\<rparr>
      = Inr True
   \<and> UpdateFunc (HealthCheckReportPredicates l :: ('fs, 'rs, 'hs) Object Funcs)
        \<lparr>ObjectOld = HealthCheckReportPtr None,
         ObjectNew = HealthCheckReportPtr (Some newHCR)\<rparr>
      = Inr True
   \<and> UpdateFunc (HealthCheckPredicates l :: ('fs, 'rs, 'hs) Object Funcs)
        \<lparr>ObjectOld = HealthCheckPtr None, ObjectNew = HealthCheckPtr (Some newHC)\<rparr>
      = Inr True"
proof -
  have machine: "MachinePredicate_Update q \<lparr>ObjectOld = None, ObjectNew = Some newM\<rparr>
      = Inr (GetTypedPhase (Machine.Status newM) = MachinePhaseRunning)"
  proof (cases "GetTypedPhase (Machine.Status newM) = MachinePhaseRunning")
    case True
    then show ?thesis by (simp add: MachinePredicate_Update_def)
  next
    case False
    then show ?thesis by (simp add: MachinePredicate_Update_def)
  qed
  have cluster: "ClusterPredicate_Update p \<lparr>ObjectOld = None, ObjectNew = Some newC\<rparr> = Inr True"
    by (simp add: ClusterPredicate_Update_def)
  have funcs:
    "UpdateFunc (SveltosClusterPredicates l :: ('fs, 'rs, 'hs) Object Funcs)
        \<lparr>ObjectOld = SveltosClusterPtr None, ObjectNew = SveltosClusterPtr (Some newS)\<rparr>
      = Inr True"
    "UpdateFunc (ClusterSummaryPredicates l :: ('fs, 'rs, 'hs) Object Funcs)
        \<lparr>ObjectOld = ClusterSummaryPtr None, ObjectNew = ClusterSummaryPtr (Some newCS)\<rparr>
      = Inr True"
    "UpdateFunc (HealthCheckReportPredicates l :: ('fs, 'rs, 'hs) Object Funcs)
        \<lparr>ObjectOld = HealthCheckReportPtr None,
         ObjectNew = HealthCheckReportPtr (Some newHCR)\<rparr>
      = Inr True"
    "UpdateFunc (HealthCheckPredicates l :: ('fs, 'rs, 'hs) Object Funcs)
        \<lparr>ObjectOld = HealthCheckPtr None, ObjectNew = HealthCheckPtr (Some newHC)\<rparr>
      = Inr True"
    by (simp_all add: SveltosClusterPredicates_def ClusterSummaryPredicates_def
        HealthCheckReportPredicates_def HealthCheckPredicates_def)
  from cluster machine funcs show ?thesis by (intro conjI)
qed

theorem update_nil_old_verdict_witness:
  "ClusterPredicate_Update \<lparr>ClusterPredicate.Logger = ()\<rparr>
     \<lparr>ObjectOld = None,
      ObjectNew = Some
       \<lparr>Name = ''c1'', Namespace = ''ns'', Labels = None, Annotations = None,
        Cluster.Spec = \<lparr>ClusterSpec.Paused = True\<rparr>,
        Cluster.Status = \<lparr>ClusterStatus.Phase = ''Provisioned'',
          ClusterStatus.InfrastructureReady = True, ControlPlaneReady = False\<rparr>\<rparr>\<rparr> = Inr True
   \<and> UpdateFunc (SveltosClusterPredicates () :: (nat, string, string) Object Funcs)
     \<lparr>ObjectOld = SveltosClusterPtr None,
      ObjectNew = SveltosClusterPtr (Some
       \<lparr>Name = ''s1'', Namespace = ''ns'', Labels = None, Annotations = None,
        SveltosCluster.Spec = \<lparr>SveltosClusterSpec.Paused = True,
          KubeconfigName = ''kubeconfig''\<rparr>,
        SveltosCluster.Status = \<lparr>Ready = False, Version = ''v1.30''\<rparr>\<rparr>)\<rparr> = Inr True
   \<and> MachinePredicate_Update \<lparr>MachinePredicate.Logger = ()\<rparr>
     \<lparr>ObjectOld = None,
      ObjectNew = Some
       \<lparr>Name = ''m1'', Namespace = ''ns'', Labels = None, Annotations = None,
        Machine.Spec = \<lparr>ClusterName = ''c1''\<rparr>,
        Machine.Status = \<lparr>MachineStatus.Phase = ''Running'', BootstrapReady = True,
          MachineStatus.InfrastructureReady = True\<rparr>\<rparr>\<rparr> = Inr True
   \<and> UpdateFunc (ClusterSummaryPredicates () :: (nat, string, string) Object Funcs)
     \<lparr>ObjectOld = ClusterSummaryPtr None,
      ObjectNew = ClusterSummaryPtr (Some
       \<lparr>Name = ''cs1'', Namespace = ''ns'', Labels = None, Annotations = None,
        ClusterSummary.Status = \<lparr>FeatureSummaries = Some [1::nat, 2],
          Dependencies = None\<rparr>\<rparr>)\<rparr> = Inr True
   \<and> UpdateFunc (HealthCheckReportPredicates () :: (nat, string, string) Object Funcs)
     \<lparr>ObjectOld = HealthCheckReportPtr None,
      ObjectNew = HealthCheckReportPtr (Some
       \<lparr>Name = ''r1'', Namespace = ''ns'', Labels = None, Annotations = None,
        HealthCheckReport.Spec = ''healthy'',
        HealthCheckReport.Status = \<lparr>HealthCheckReportStatus.Phase = None\<rparr>\<rparr>)\<rparr> = Inr True
   \<and> UpdateFunc (HealthCheckPredicates () :: (nat, string, string) Object Funcs)
     \<lparr>ObjectOld = HealthCheckPtr None,
      ObjectNew = HealthCheckPtr (Some
       \<lparr>Name = ''hc1'', Namespace = '''', Labels = None, Annotations = None,
        HealthCheck.Spec = ''deployments''\<rparr>)\<rparr> = Inr True"
  using update_nil_old_verdict [where p = "\<lparr>ClusterPredicate.Logger = ()\<rparr>" and q = "\<lparr>MachinePredicate.Logger = ()\<rparr>" and l = "()"
      and newC = "\<lparr>Name = ''c1'', Namespace = ''ns'', Labels = None, Annotations = None,
        Cluster.Spec = \<lparr>ClusterSpec.Paused = True\<rparr>,
        Cluster.Status = \<lparr>ClusterStatus.Phase = ''Provisioned'',
          ClusterStatus.InfrastructureReady = True, ControlPlaneReady = False\<rparr>\<rparr>"
      and newS = "\<lparr>Name = ''s1'', Namespace = ''ns'', Labels = None, Annotations = None,
        SveltosCluster.Spec = \<lparr>SveltosClusterSpec.Paused = True,
          KubeconfigName = ''kubeconfig''\<rparr>,
        SveltosCluster.Status = \<lparr>Ready = False, Version = ''v1.30''\<rparr>\<rparr>"
      and newM = "\<lparr>Name = ''m1'', Namespace = ''ns'', Labels = None, Annotations = None,
        Machine.Spec = \<lparr>ClusterName = ''c1''\<rparr>,
        Machine.Status = \<lparr>MachineStatus.Phase = ''Running'', BootstrapReady = True,
          MachineStatus.InfrastructureReady = True\<rparr>\<rparr>"
      and newCS = "\<lparr>Name = ''cs1'', Namespace = ''ns'', Labels = None, Annotations = None,
        ClusterSummary.Status = \<lparr>FeatureSummaries = Some [1::nat, 2],
          Dependencies = None\<rparr>\<rparr>"
      and newHCR = "\<lparr>Name = ''r1'', Namespace = ''ns'', Labels = None, Annotations = None,
        HealthCheckReport.Spec = ''healthy'',
        HealthCheckReport.Status = \<lparr>HealthCheckReportStatus.Phase = None\<rparr>\<rparr>"
      and newHC = "\<lparr>Name = ''hc1'', Namespace = '''', Labels = None, Annotations = None,
        HealthCheck.Spec = ''deployments''\<rparr>"]
  by (simp add: GetTypedPhase_Running_iff)

end
